theory Spec2Isabelle
  imports Complex_Main "HOL-Library.Word" "HOL-Library.Multiset"
begin

unbundle bit_operations_syntax

section \<open>VoiceChef back end: a shallow embedding of the request handlers\<close>

text \<open>
  The handlers of \<^verbatim>\<open>app/routers\<close> are modelled as functions over explicit state:
  a database table is the list of its rows (in the order a query returns them), a
  handler takes the tables it reads and returns either the \<^verbatim>\<open>HTTPException\<close> it raises
  (\<open>Inl\<close>) or its response (\<open>Inr\<close>), together with the tables it has written.
  Python strings are modelled as \<open>string\<close>; the characters of the model are the
  code points below 256, so text with other characters is outside the model. Time stamps are seconds since the epoch (UTC). Python floats are modelled
  as rationals. What lies outside the repository (the bcrypt context, the token codec,
  the \<^verbatim>\<open>EmailStr\<close> type) is a parameter of the function that calls it; MD5 is
  written out. A failure of the database connection is not modelled.
\<close>

subsection \<open>Python strings\<close>

text \<open>
  A character of the model is a code point below 256. On these,
  \<^verbatim>\<open>str.isspace\<close> (the white space of \<^verbatim>\<open>str.strip()\<close>) holds of 9 to 13, 28 to
  32, 133 and 160; \<^verbatim>\<open>str.isdigit\<close> of the digits and of the superscripts 178, 179
  and 185; \<^verbatim>\<open>str.isalpha\<close> of the ASCII letters, of 170, 181, 186 and of 192 to 255
  except 215 and 247; \<^verbatim>\<open>str.lower\<close> adds 32 to the upper-case letters, which are
  65 to 90 and 192 to 222 except 215.
\<close>

definition py_isspace :: "char \<Rightarrow> bool" where
  "py_isspace c =
     (let n = (of_char c :: nat)
      in (9 \<le> n \<and> n \<le> 13) \<or> (28 \<le> n \<and> n \<le> 32) \<or> n = 133 \<or> n = 160)"

text \<open>The classes \<^verbatim>\<open>[0-9]\<close>, \<^verbatim>\<open>[A-Z]\<close> and \<^verbatim>\<open>[a-zA-Z]\<close>.\<close>

definition ascii_digit :: "char \<Rightarrow> bool" where
  "ascii_digit c = (let n = (of_char c :: nat) in 48 \<le> n \<and> n \<le> 57)"

definition ascii_upper :: "char \<Rightarrow> bool" where
  "ascii_upper c = (let n = (of_char c :: nat) in 65 \<le> n \<and> n \<le> 90)"

definition ascii_letter :: "char \<Rightarrow> bool" where
  "ascii_letter c = (let n = (of_char c :: nat) in (65 \<le> n \<and> n \<le> 90) \<or> (97 \<le> n \<and> n \<le> 122))"

definition isdigit :: "char \<Rightarrow> bool" where
  "isdigit c = (let n = (of_char c :: nat) in ascii_digit c \<or> n = 178 \<or> n = 179 \<or> n = 185)"

definition isalpha :: "char \<Rightarrow> bool" where
  "isalpha c =
     (let n = (of_char c :: nat)
      in ascii_letter c \<or> n = 170 \<or> n = 181 \<or> n = 186
         \<or> (192 \<le> n \<and> n \<le> 214) \<or> (216 \<le> n \<and> n \<le> 246) \<or> 248 \<le> n)"

definition lower_char :: "char \<Rightarrow> char" where
  "lower_char c =
     (let n = (of_char c :: nat)
      in if ascii_upper c \<or> (192 \<le> n \<and> n \<le> 214) \<or> (216 \<le> n \<and> n \<le> 222)
         then char_of (n + 32) else c)"

definition lower :: "string \<Rightarrow> string" where
  "lower s = map lower_char s"

definition lstrip :: "string \<Rightarrow> string" where
  "lstrip s = dropWhile py_isspace s"

definition rstrip :: "string \<Rightarrow> string" where
  "rstrip s = rev (dropWhile py_isspace (rev s))"

definition strip :: "string \<Rightarrow> string" where
  "strip s = rstrip (lstrip s)"

text \<open>\<^verbatim>\<open>s.lstrip("/")\<close> and \<^verbatim>\<open>s.startswith(p)\<close>.\<close>

definition lstrip_slash :: "string \<Rightarrow> string" where
  "lstrip_slash s = dropWhile (\<lambda>c. c = CHR ''/'') s"

fun startswith :: "string \<Rightarrow> string \<Rightarrow> bool" where
  "startswith s [] = True"
| "startswith [] (p # ps) = False"
| "startswith (c # cs) (p # ps) = (c = p \<and> startswith cs ps)"

text \<open>\<^verbatim>\<open>pattern in s\<close>: the pattern occurs in \<open>s\<close> as a contiguous run.\<close>

fun contains :: "string \<Rightarrow> string \<Rightarrow> bool" where
  "contains [] pat = (pat = [])"
| "contains (c # cs) pat = (startswith (c # cs) pat \<or> contains cs pat)"

text \<open>\<^verbatim>\<open>str(n)\<close> for an integer: its decimal numeral.\<close>

definition digit_char :: "nat \<Rightarrow> char" where
  "digit_char d = char_of (48 + d)"

fun str_of_nat :: "nat \<Rightarrow> string" where
  "str_of_nat n = (if n < 10 then [digit_char n] else str_of_nat (n div 10) @ [digit_char (n mod 10)])"

declare str_of_nat.simps [simp del]

definition str_of_int :: "int \<Rightarrow> string" where
  "str_of_int i = (if i < 0 then CHR ''-'' # str_of_nat (nat (- i)) else str_of_nat (nat i))"

text \<open>
  \<^verbatim>\<open>int(s)\<close> for a string: the white space that \<^verbatim>\<open>int\<close> skips at both ends
  is 9 to 13, 32, 133 and 160 (not 28 to 31); one sign is allowed; the rest is decimal
  digits with single underscores between digits; anything else raises
  \<^verbatim>\<open>ValueError\<close> (\<open>None\<close>).
\<close>

definition int_space :: "char \<Rightarrow> bool" where
  "int_space c =
     (let n = (of_char c :: nat) in (9 \<le> n \<and> n \<le> 13) \<or> n = 32 \<or> n = 133 \<or> n = 160)"

fun no_double_underscore :: "string \<Rightarrow> bool" where
  "no_double_underscore (a # b # cs) =
     (\<not> (a = CHR ''_'' \<and> b = CHR ''_'') \<and> no_double_underscore (b # cs))"
| "no_double_underscore cs = True"

definition digits_value :: "string \<Rightarrow> int" where
  "digits_value ds = foldl (\<lambda>a c. 10 * a + (int (of_char c) - 48)) 0 ds"

definition py_int :: "string \<Rightarrow> int option" where
  "py_int s =
     (let t = rev (dropWhile int_space (rev (dropWhile int_space s)));
          sgn = (case t of c # _ \<Rightarrow> if c = CHR ''-'' then - 1 else 1 | [] \<Rightarrow> (1::int));
          body = (case t of c # r \<Rightarrow> if c = CHR ''-'' \<or> c = CHR ''+'' then r else t | [] \<Rightarrow> [])
      in if body \<noteq> [] \<and> list_all (\<lambda>c. ascii_digit c \<or> c = CHR ''_'') body
            \<and> ascii_digit (hd body) \<and> ascii_digit (last body) \<and> no_double_underscore body
         then Some (sgn * digits_value (filter ascii_digit body))
         else None)"

subsection \<open>HTTP errors\<close>

text \<open>
  The \<open>detail\<close> of an \<^verbatim>\<open>HTTPException\<close>: one constructor for each message literal of the
  source (most of them Russian; the comment gives the literal's meaning). Two raises have
  the same constructor exactly when they carry the same literal.
\<close>

datatype detail =
    InvalidEmailOrPassword      \<comment> \<open>login: invalid email or password\<close>
  | PasswordAndHashEmpty        \<comment> \<open>"Password and hash must not be empty"\<close>
  | ErrorVerifyingPassword      \<comment> \<open>"Error verifying password: ..."\<close>
  | PasswordEmpty               \<comment> \<open>"Password cannot be empty"\<close>
  | ErrorHashingPassword        \<comment> \<open>"Error hashing password: ..."\<close>
  | CouldNotCreateToken         \<comment> \<open>"Could not create access token: ..."\<close>
  | InvalidTokenType            \<comment> \<open>"Invalid token type"\<close>
  | InvalidToken                \<comment> \<open>"Invalid token"\<close>
  | InvalidTokenPayload         \<comment> \<open>"Invalid token payload"\<close>
  | MalformedToken              \<comment> \<open>get_current_user: incorrect token\<close>
  | UserNotFound                \<comment> \<open>user not found\<close>
  | AuthenticationError         \<comment> \<open>get_current_user: authentication error\<close>
  | AdminRequired               \<comment> \<open>administrator rights are required\<close>
  | EmailExists                 \<comment> \<open>register: a user with this email already exists\<close>
  | RegistrationError           \<comment> \<open>register: an error occurred during registration\<close>
  | DishLimitExceeded nat       \<comment> \<open>create_dish: dish limit exceeded (the limit)\<close>
  | ErrorCreatingDish           \<comment> \<open>create_dish: error while creating the dish\<close>
  | RecipeNotFound              \<comment> \<open>recipe not found\<close>
  | ErrorDeletingRecipe         \<comment> \<open>delete_recipe: error while deleting the recipe\<close>
  | ErrorDeletingPhoto          \<comment> \<open>delete_photo: error while deleting the photo\<close>
  | CannotDeactivateSelf        \<comment> \<open>toggle_user_active: own account cannot be deactivated\<close>
  | SomeUsersNotFound           \<comment> \<open>bulk_user_action: some users were not found\<close>
  | RequestValidationError      \<comment> \<open>the body of a 422 response: the request did not validate\<close>

datatype http_exception =
  HTTPException (status_code: nat) (detail: detail) (headers: "(string \<times> string) list")

text \<open>Python exceptions that are not \<^verbatim>\<open>HTTPException\<close>.\<close>

datatype py_exception = ValueError | TypeError | AttributeError | IntegrityError

subsection \<open>Users (\<^verbatim>\<open>app/models/user.py\<close>)\<close>

record user =
  u_id :: int
  email :: string
  hashed_password :: string
  is_premium :: bool
  is_active :: bool
  is_admin :: bool
  is_verified :: bool
  permissions :: "string option"
  first_name :: "string option"
  last_name :: "string option"
  created_at :: int
  last_login :: "int option"
  language :: string
  timezone :: string

text \<open>
  The regular expression of \<^verbatim>\<open>User.validate_email\<close>,
  \<^verbatim>\<open>^[a-zA-Z0-9._%+-]+@[a-zA-Z0-9.-]+\.[a-zA-Z]{2,}$\<close>: the local part runs to the first
  \<open>@\<close>; the last group has no dot, so it is what follows the last dot.
\<close>

definition local_char :: "char \<Rightarrow> bool" where
  "local_char c = (ascii_letter c \<or> ascii_digit c \<or> c \<in> set ''._%+-'')"

definition domain_char :: "char \<Rightarrow> bool" where
  "domain_char c = (ascii_letter c \<or> ascii_digit c \<or> c \<in> set ''.-'')"

definition email_regex_match :: "string \<Rightarrow> bool" where
  "email_regex_match s =
     (let loc = takeWhile (\<lambda>c. c \<noteq> CHR ''@'') s;
          rest = dropWhile (\<lambda>c. c \<noteq> CHR ''@'') s;
          dom = tl rest;
          tld = rev (takeWhile (\<lambda>c. c \<noteq> CHR ''.'') (rev dom));
          dom_name = rev (tl (dropWhile (\<lambda>c. c \<noteq> CHR ''.'') (rev dom)))
      in loc \<noteq> [] \<and> list_all local_char loc \<and> rest \<noteq> []
         \<and> CHR ''.'' \<in> set dom \<and> dom_name \<noteq> [] \<and> list_all domain_char dom_name
         \<and> 2 \<le> length tld \<and> list_all ascii_letter tld)"

definition validate_email :: "string \<Rightarrow> py_exception + string" where
  "validate_email e =
     (if e = [] \<or> strip e = [] then Inl ValueError
      else let e' = lower (strip e) in
        if length e' > 255 then Inl ValueError
        else if \<not> email_regex_match e' then Inl ValueError
        else Inr e')"

definition validate_hashed_password :: "string \<Rightarrow> py_exception + string" where
  "validate_hashed_password h =
     (if h = [] then Inl ValueError
      else if length h > 1024 then Inl ValueError
      else Inr h)"

text \<open>\<^verbatim>\<open>User.update_last_login\<close>.\<close>

definition update_last_login :: "int \<Rightarrow> user \<Rightarrow> user" where
  "update_last_login now u = u\<lparr>last_login := Some now\<rparr>"

text \<open>
  \<^verbatim>\<open>db.commit()\<close> after a row object was changed: the row with that primary key is
  replaced. (The column \<open>updated_at\<close> is not part of the model.)
\<close>

definition commit_user :: "user \<Rightarrow> user list \<Rightarrow> user list" where
  "commit_user u' users = map (\<lambda>u. if u_id u = u_id u' then u' else u) users"

text \<open>A fresh primary key for an inserted row.\<close>

definition fresh_id :: "int list \<Rightarrow> int" where
  "fresh_id ids = 1 + foldr max ids 0"

subsection \<open>Passwords (\<^verbatim>\<open>app/auth/security.py\<close>)\<close>

text \<open>
  The bcrypt context is outside the repository: \<open>pwd_hash\<close> and \<open>pwd_verify\<close> stand for
  \<^verbatim>\<open>pwd_context.hash\<close> and \<^verbatim>\<open>pwd_context.verify\<close>, with \<open>None\<close> when the primitive
  raises.
\<close>

definition hash_password :: "(string \<Rightarrow> string option) \<Rightarrow> string \<Rightarrow> http_exception + string" where
  "hash_password pwd_hash password =
     (if password = [] then Inl (HTTPException 400 PasswordEmpty [])
      else case pwd_hash password of
             Some h \<Rightarrow> Inr h
           | None \<Rightarrow> Inl (HTTPException 500 ErrorHashingPassword []))"

definition verify_password ::
  "(string \<Rightarrow> string \<Rightarrow> bool option) \<Rightarrow> string \<Rightarrow> string \<Rightarrow> http_exception + bool" where
  "verify_password pwd_verify plain_password hashed =
     (if plain_password = [] \<or> hashed = [] then Inl (HTTPException 400 PasswordAndHashEmpty [])
      else case pwd_verify plain_password hashed of
             Some b \<Rightarrow> Inr b
           | None \<Rightarrow> Inl (HTTPException 500 ErrorVerifyingPassword []))"

subsection \<open>Tokens (\<^verbatim>\<open>app/auth/jwt.py\<close>)\<close>

datatype claim = CStr string | CInt int | CStrList "string list"

type_synonym payload = "string \<rightharpoonup> claim"

text \<open>What \<^verbatim>\<open>jwt.decode\<close> does with a token: it raises one of two errors or returns the claims.\<close>

datatype jwt_result = JWTError | ValidationError | Decoded payload

definition create_access_token ::
  "(payload \<Rightarrow> string option) \<Rightarrow> int \<Rightarrow> int \<Rightarrow> payload \<Rightarrow> int option \<Rightarrow> http_exception + string" where
  "create_access_token jwt_encode default_minutes now data expires_delta =
     (let expire = (case expires_delta of Some d \<Rightarrow> if d \<noteq> 0 then now + d else now + 60 * default_minutes
                                        | None \<Rightarrow> now + 60 * default_minutes);
          to_encode = data(''exp'' \<mapsto> CInt expire, ''iat'' \<mapsto> CInt now, ''type'' \<mapsto> CStr ''access'')
      in case jwt_encode to_encode of
           Some t \<Rightarrow> Inr t
         | None \<Rightarrow> Inl (HTTPException 500 CouldNotCreateToken []))"

definition bearer :: "(string \<times> string) list" where
  "bearer = [(''WWW-Authenticate'', ''Bearer'')]"

definition decode_access_token :: "(string \<Rightarrow> jwt_result) \<Rightarrow> string \<Rightarrow> http_exception + payload" where
  "decode_access_token jwt_decode token =
     (case jwt_decode token of
        JWTError \<Rightarrow> Inl (HTTPException 401 InvalidToken bearer)
      | ValidationError \<Rightarrow> Inl (HTTPException 401 InvalidTokenPayload bearer)
      | Decoded payload \<Rightarrow>
          if payload ''type'' \<noteq> Some (CStr ''access'')
          then Inl (HTTPException 401 InvalidTokenType bearer)
          else Inr payload)"

subsection \<open>Resolving the caller (\<^verbatim>\<open>app/dependencies/auth.py\<close>)\<close>

text \<open>Python truthiness of \<^verbatim>\<open>payload.get("sub")\<close>, and \<^verbatim>\<open>int(...)\<close> of it.\<close>

fun truthy :: "claim option \<Rightarrow> bool" where
  "truthy None = False"
| "truthy (Some (CStr s)) = (s \<noteq> [])"
| "truthy (Some (CInt n)) = (n \<noteq> 0)"
| "truthy (Some (CStrList xs)) = (xs \<noteq> [])"

fun int_of_claim :: "claim \<Rightarrow> py_exception + int" where
  "int_of_claim (CStr s) = (case py_int s of Some n \<Rightarrow> Inr n | None \<Rightarrow> Inl ValueError)"
| "int_of_claim (CInt n) = Inr n"
| "int_of_claim (CStrList xs) = Inl TypeError"

definition get_current_user ::
  "(string \<Rightarrow> jwt_result) \<Rightarrow> user list \<Rightarrow> string \<Rightarrow> http_exception + user" where
  "get_current_user jwt_decode users token =
     (case decode_access_token jwt_decode token of
        Inl e \<Rightarrow> Inl e
      | Inr payload \<Rightarrow>
          (let user_id = payload ''sub'' in
           if \<not> truthy user_id then Inl (HTTPException 401 MalformedToken bearer)
           else (case int_of_claim (the user_id) of
                   Inl exn \<Rightarrow> Inl (HTTPException 401 AuthenticationError bearer)
                 | Inr n \<Rightarrow>
                     (case find (\<lambda>u. u_id u = n) users of
                        None \<Rightarrow> Inl (HTTPException 401 UserNotFound bearer)
                      | Some u \<Rightarrow> Inr u))))"

definition get_current_active_user :: "user \<Rightarrow> user" where
  "get_current_active_user current_user = current_user"

definition get_current_admin_user :: "user \<Rightarrow> http_exception + user" where
  "get_current_admin_user current_user =
     (if \<not> is_admin current_user then Inl (HTTPException 403 AdminRequired [])
      else Inr current_user)"

subsection \<open>Registration and login (\<^verbatim>\<open>app/routers/auth.py\<close>, \<^verbatim>\<open>app/schemas/user.py\<close>)\<close>

text \<open>A validated \<^verbatim>\<open>UserCreate\<close> body.\<close>

record user_create =
  uc_email :: string
  uc_password :: string
  uc_first_name :: "string option"
  uc_last_name :: "string option"
  uc_language :: string

text \<open>
  \<^verbatim>\<open>User(email=email, hashed_password=...)\<close>: the two attribute validators run, every
  other column is left to its default, which the insert fills in.
\<close>

definition new_user :: "int \<Rightarrow> int \<Rightarrow> string \<Rightarrow> string \<Rightarrow> py_exception + user" where
  "new_user now new_id e h =
     (case validate_email e of
        Inl exn \<Rightarrow> Inl exn
      | Inr e' \<Rightarrow>
          (case validate_hashed_password h of
             Inl exn \<Rightarrow> Inl exn
           | Inr h' \<Rightarrow>
               Inr \<lparr>u_id = new_id, email = e', hashed_password = h', is_premium = False,
                    is_active = True, is_admin = False, is_verified = False,
                    permissions = None, first_name = None, last_name = None,
                    created_at = now, last_login = None,
                    language = ''ru'', timezone = ''UTC''\<rparr>))"

text \<open>
  \<^verbatim>\<open>register\<close>. Any exception that is not an \<^verbatim>\<open>HTTPException\<close> (a validator's
  \<^verbatim>\<open>ValueError\<close>, the unique index on \<open>email\<close> at commit) becomes the generic 500.
  The response is the created row and the \<^verbatim>\<open>Location\<close> header.
\<close>

definition register ::
  "(string \<Rightarrow> string option) \<Rightarrow> int \<Rightarrow> user list \<Rightarrow> user_create
     \<Rightarrow> (http_exception + user \<times> (string \<times> string) list) \<times> user list" where
  "register pwd_hash now users user_data =
     (let e = uc_email user_data in
      case find (\<lambda>u. email u = e) users of
        Some existing_user \<Rightarrow> (Inl (HTTPException 409 EmailExists []), users)
      | None \<Rightarrow>
          (case hash_password pwd_hash (uc_password user_data) of
             Inl exn \<Rightarrow> (Inl exn, users)
           | Inr h \<Rightarrow>
               (case new_user now (fresh_id (map u_id users)) e h of
                  Inl exn \<Rightarrow> (Inl (HTTPException 500 RegistrationError []), users)
                | Inr u \<Rightarrow>
                    if list_ex (\<lambda>v. email v = email u) users
                    then (Inl (HTTPException 500 RegistrationError []), users)
                    else (Inr (u, [(''Location'', ''/users/'' @ str_of_int (u_id u))]),
                          users @ [u]))))"

record login_form =
  fd_username :: string
  fd_password :: string

record token_response =
  access_token :: string
  token_type :: string
  expires_in :: int
  tr_user :: user

text \<open>
  \<^verbatim>\<open>login\<close>. \<open>default_minutes\<close> is \<^verbatim>\<open>settings.JWT_ACCESS_TOKEN_EXPIRE_MINUTES\<close>.
  The log lines are not part of the response and are left out.
\<close>

definition login ::
  "(string \<Rightarrow> string \<Rightarrow> bool option) \<Rightarrow> (payload \<Rightarrow> string option) \<Rightarrow> int \<Rightarrow> int \<Rightarrow> user list
     \<Rightarrow> login_form \<Rightarrow> (http_exception + token_response) \<times> user list" where
  "login pwd_verify jwt_encode default_minutes now users form_data =
     (let username = strip (lower (fd_username form_data)) in
      case find (\<lambda>u. email u = username) users of
        None \<Rightarrow> (Inl (HTTPException 401 InvalidEmailOrPassword bearer), users)
      | Some u \<Rightarrow>
          (case verify_password pwd_verify (fd_password form_data) (hashed_password u) of
             Inl exn \<Rightarrow> (Inl exn, users)
           | Inr ok \<Rightarrow>
               if \<not> ok then (Inl (HTTPException 401 InvalidEmailOrPassword bearer), users)
               else
                 (let u' = update_last_login now u;
                      users' = commit_user u' users
                  in (case create_access_token jwt_encode default_minutes now
                             [''sub'' \<mapsto> CStr (str_of_int (u_id u'))] (Some (24 * 3600)) of
                        Inl exn \<Rightarrow> (Inl exn, users')
                      | Inr t \<Rightarrow>
                          (Inr \<lparr>access_token = t, token_type = ''bearer'',
                                expires_in = 24 * 60 * 60, tr_user = u'\<rparr>, users')))))"

subsection \<open>Cooking sessions and the cooking streak (\<^verbatim>\<open>app/routers/analytics.py\<close>)\<close>

record cooking_session =
  cs_id :: int
  cs_user_id :: int
  cs_recipe_id :: int
  cs_is_completed :: bool
  cs_current_step :: int
  cs_total_steps :: int
  cs_started_at :: int

text \<open>\<^verbatim>\<open>datetime.date()\<close> / SQL \<^verbatim>\<open>date(...)\<close>: the day number of a time stamp.\<close>

definition date_of :: "int \<Rightarrow> int" where
  "date_of t = t div 86400"

text \<open>
  The query of the streak loop:
  \<^verbatim>\<open>db.query(CookingSession).filter(user_id == user.id,
      func.date(started_at) == check_date, is_completed == True).count()\<close>
\<close>

definition sessions_count :: "cooking_session list \<Rightarrow> int \<Rightarrow> int \<Rightarrow> nat" where
  "sessions_count db uid check_date =
     length (filter (\<lambda>s. cs_user_id s = uid \<and> date_of (cs_started_at s) = check_date
                          \<and> cs_is_completed s) db)"

text \<open>
  The body of \<^verbatim>\<open>for days_back in range(7)\<close>, with \<open>cooking_streak\<close> as the
  accumulator; every \<^verbatim>\<open>break\<close> returns the accumulator.
\<close>

fun streak_loop :: "(nat \<Rightarrow> nat) \<Rightarrow> nat list \<Rightarrow> nat \<Rightarrow> nat" where
  "streak_loop cnt [] cooking_streak = cooking_streak"
| "streak_loop cnt (days_back # rest) cooking_streak =
     (if cnt days_back > 0 then
        (if days_back = cooking_streak then streak_loop cnt rest (cooking_streak + 1)
         else cooking_streak)
      else
        (if days_back = 0 then cooking_streak
         else if days_back = cooking_streak then cooking_streak
         else streak_loop cnt rest cooking_streak))"

definition cooking_streak_of :: "cooking_session list \<Rightarrow> int \<Rightarrow> int \<Rightarrow> nat" where
  "cooking_streak_of db uid now =
     streak_loop (\<lambda>days_back. sessions_count db uid (date_of now - int days_back)) [0..<7] 0"

text \<open>
  For the statement of the streak: a day on which the user has at least one completed
  session, said without the query.
\<close>

definition cooked_on :: "cooking_session list \<Rightarrow> int \<Rightarrow> int \<Rightarrow> bool" where
  "cooked_on db uid day =
     (\<exists>s \<in> set db. cs_user_id s = uid \<and> cs_is_completed s \<and> date_of (cs_started_at s) = day)"

text \<open>
  Re-assigning the \<open>is_active\<close> flag of every row (\<open>g\<close> gives the flag of the user
  with a given id); \<^verbatim>\<open>deactivate_account\<close> is the case of one flag set to False.
\<close>

definition set_flags :: "(int \<Rightarrow> bool) \<Rightarrow> user \<Rightarrow> user" where
  "set_flags g u = u\<lparr>is_active := g (u_id u)\<rparr>"

subsection \<open>Usage limits (\<^verbatim>\<open>app/utils/limits.py\<close>)\<close>

record limits =
  max_dishes :: nat
  max_recipes_per_dish :: nat
  max_photo_size :: nat
  max_tts_cache_size :: nat
  can_use_premium_tts :: bool
  max_ingredients_per_recipe :: nat
  can_export_recipes :: bool

definition get_user_limits :: "bool \<Rightarrow> limits" where
  "get_user_limits premium =
     (if premium then
        \<lparr>max_dishes = 45, max_recipes_per_dish = 5, max_photo_size = 10 * 1024 * 1024,
         max_tts_cache_size = 200 * 1024 * 1024, can_use_premium_tts = True,
         max_ingredients_per_recipe = 50, can_export_recipes = True\<rparr>
      else
        \<lparr>max_dishes = 15, max_recipes_per_dish = 3, max_photo_size = 2 * 1024 * 1024,
         max_tts_cache_size = 50 * 1024 * 1024, can_use_premium_tts = False,
         max_ingredients_per_recipe = 20, can_export_recipes = False\<rparr>)"

subsection \<open>Dishes (\<^verbatim>\<open>app/models/dish.py\<close>, \<^verbatim>\<open>app/routers/dishes.py\<close>)\<close>

datatype dish_category = First | Second | Garnish

record dish =
  d_id :: int
  d_name :: string
  d_category :: dish_category
  d_user_id :: int
  d_created_at :: int

text \<open>A validated \<^verbatim>\<open>DishCreate\<close> body: the name has 2 to 100 characters.\<close>

record dish_create =
  dc_name :: string
  dc_category :: dish_category

definition dish_create_valid :: "dish_create \<Rightarrow> bool" where
  "dish_create_valid data = (2 \<le> length (dc_name data) \<and> length (dc_name data) \<le> 100)"

text \<open>\<^verbatim>\<open>Dish.validate_name\<close>, run when the constructor sets \<open>name\<close>.\<close>

definition dish_validate_name :: "string \<Rightarrow> py_exception + string" where
  "dish_validate_name name =
     (if name = [] \<or> strip name = [] then Inl ValueError
      else if length name > 100 then Inl ValueError
      else Inr (strip name))"

text \<open>\<^verbatim>\<open>db.query(Dish).filter(Dish.user_id == int(user.id)).count()\<close>\<close>

definition dish_count :: "dish list \<Rightarrow> user \<Rightarrow> nat" where
  "dish_count dishes u = length (filter (\<lambda>d. d_user_id d = u_id u) dishes)"

definition create_dish ::
  "int \<Rightarrow> dish list \<Rightarrow> user \<Rightarrow> dish_create \<Rightarrow> (http_exception + dish) \<times> dish list" where
  "create_dish now dishes u data =
     (let lim = get_user_limits (is_premium u);
          count = dish_count dishes u
      in if count \<ge> max_dishes lim
         then (Inl (HTTPException 403 (DishLimitExceeded (max_dishes lim)) []), dishes)
         else (case dish_validate_name (strip (dc_name data)) of
                 Inl exn \<Rightarrow> (Inl (HTTPException 500 ErrorCreatingDish []), dishes)
               | Inr name \<Rightarrow>
                   (let dish = \<lparr>d_id = fresh_id (map d_id dishes), d_name = name,
                                 d_category = dc_category data, d_user_id = u_id u,
                                 d_created_at = now\<rparr>
                    in (Inr dish, dishes @ [dish]))))"

subsection \<open>Administration of users (\<^verbatim>\<open>app/routers/users.py\<close>, \<^verbatim>\<open>app/routers/admin.py\<close>)\<close>

text \<open>The message of \<^verbatim>\<open>toggle_user_active\<close>: the user was activated or deactivated.\<close>

datatype toggle_message = Activated | Deactivated

record api_response =
  ar_success :: bool
  ar_message :: toggle_message
  ar_data :: user

definition toggle_user_active ::
  "user list \<Rightarrow> int \<Rightarrow> user \<Rightarrow> (http_exception + api_response) \<times> user list" where
  "toggle_user_active users user_id admin_user =
     (case find (\<lambda>u. u_id u = user_id) users of
        None \<Rightarrow> (Inl (HTTPException 404 UserNotFound []), users)
      | Some u \<Rightarrow>
          if u_id u = u_id admin_user
          then (Inl (HTTPException 400 CannotDeactivateSelf []), users)
          else (let u' = u\<lparr>is_active := \<not> is_active u\<rparr>
                in (Inr \<lparr>ar_success = True,
                         ar_message = (if is_active u' then Activated else Deactivated),
                         ar_data = u'\<rparr>,
                    commit_user u' users)))"

text \<open>A validated \<^verbatim>\<open>UserBulkAction\<close> body: 1 to 100 ids and one of the four actions.\<close>

record user_bulk_action =
  ba_user_ids :: "int list"
  ba_action :: string

definition user_bulk_action_valid :: "user_bulk_action \<Rightarrow> bool" where
  "user_bulk_action_valid a =
     (1 \<le> length (ba_user_ids a) \<and> length (ba_user_ids a) \<le> 100
      \<and> ba_action a \<in> set [''activate'', ''deactivate'', ''premium_on'', ''premium_off''])"

text \<open>
  The response: \<open>success\<close>, the message (it names the action and the count) and
  \<open>updated_count\<close>.
\<close>

record bulk_result =
  br_success :: bool
  br_message :: "string \<times> nat"
  br_updated_count :: nat

text \<open>
  The loop \<^verbatim>\<open>for user in users\<close> over the rows found, with \<open>updated_count\<close> as the
  accumulator; it returns the rows as the loop leaves them and the final count.
\<close>

fun bulk_loop :: "string \<Rightarrow> user \<Rightarrow> user list \<Rightarrow> nat \<Rightarrow> user list \<times> nat" where
  "bulk_loop act admin [] updated_count = ([], updated_count)"
| "bulk_loop act admin (u # rest) updated_count =
     (if act \<in> set [''deactivate''] \<and> u_id u = u_id admin then
        (case bulk_loop act admin rest updated_count of (us, n) \<Rightarrow> (u # us, n))
      else if act = ''activate'' then
        (case bulk_loop act admin rest (updated_count + 1) of
           (us, n) \<Rightarrow> (u\<lparr>is_active := True\<rparr> # us, n))
      else if act = ''deactivate'' then
        (case bulk_loop act admin rest (updated_count + 1) of
           (us, n) \<Rightarrow> (u\<lparr>is_active := False\<rparr> # us, n))
      else if act = ''premium_on'' then
        (case bulk_loop act admin rest (updated_count + 1) of
           (us, n) \<Rightarrow> (u\<lparr>is_premium := True\<rparr> # us, n))
      else if act = ''premium_off'' then
        (case bulk_loop act admin rest (updated_count + 1) of
           (us, n) \<Rightarrow> (u\<lparr>is_premium := False\<rparr> # us, n))
      else
        (case bulk_loop act admin rest updated_count of (us, n) \<Rightarrow> (u # us, n)))"

text \<open>\<^verbatim>\<open>db.commit()\<close> after the loop: every changed row replaces the row with its key.\<close>

definition commit_users :: "user list \<Rightarrow> user list \<Rightarrow> user list" where
  "commit_users changed users =
     map (\<lambda>u. case find (\<lambda>v. u_id v = u_id u) changed of Some v \<Rightarrow> v | None \<Rightarrow> u) users"

definition bulk_user_action ::
  "user list \<Rightarrow> user_bulk_action \<Rightarrow> user \<Rightarrow> (http_exception + bulk_result) \<times> user list" where
  "bulk_user_action users action_data admin =
     (let found = filter (\<lambda>u. u_id u \<in> set (ba_user_ids action_data)) users in
      if length found \<noteq> length (ba_user_ids action_data)
      then (Inl (HTTPException 400 SomeUsersNotFound []), users)
      else (case bulk_loop (ba_action action_data) admin found 0 of
              (changed, updated_count) \<Rightarrow>
                (Inr \<lparr>br_success = True,
                      br_message = (ba_action action_data, updated_count),
                      br_updated_count = updated_count\<rparr>,
                 commit_users changed users)))"

subsection \<open>The TTS cache (\<^verbatim>\<open>app/utils/tts.py\<close>)\<close>

text \<open>
  \<^verbatim>\<open>hashlib.md5(data).hexdigest()\<close>, after RFC 1321: the message is padded with the
  byte 0x80, zero bytes up to 56 modulo 64 and its length in bits as eight little-endian
  bytes; every block of sixteen little-endian 32-bit words goes through 64 steps; the
  digest is the four state words in little-endian bytes, each byte as two lower-case
  hexadecimal digits.
\<close>

definition md5_shifts :: "nat list" where
  "md5_shifts =
     [7, 12, 17, 22, 7, 12, 17, 22, 7, 12, 17, 22, 7, 12, 17, 22,
      5, 9, 14, 20, 5, 9, 14, 20, 5, 9, 14, 20, 5, 9, 14, 20,
      4, 11, 16, 23, 4, 11, 16, 23, 4, 11, 16, 23, 4, 11, 16, 23,
      6, 10, 15, 21, 6, 10, 15, 21, 6, 10, 15, 21, 6, 10, 15, 21]"

definition md5_consts :: "32 word list" where
  "md5_consts =
     [0xd76aa478, 0xe8c7b756, 0x242070db, 0xc1bdceee,
      0xf57c0faf, 0x4787c62a, 0xa8304613, 0xfd469501,
      0x698098d8, 0x8b44f7af, 0xffff5bb1, 0x895cd7be,
      0x6b901122, 0xfd987193, 0xa679438e, 0x49b40821,
      0xf61e2562, 0xc040b340, 0x265e5a51, 0xe9b6c7aa,
      0xd62f105d, 0x02441453, 0xd8a1e681, 0xe7d3fbc8,
      0x21e1cde6, 0xc33707d6, 0xf4d50d87, 0x455a14ed,
      0xa9e3e905, 0xfcefa3f8, 0x676f02d9, 0x8d2a4c8a,
      0xfffa3942, 0x8771f681, 0x6d9d6122, 0xfde5380c,
      0xa4beea44, 0x4bdecfa9, 0xf6bb4b60, 0xbebfbc70,
      0x289b7ec6, 0xeaa127fa, 0xd4ef3085, 0x04881d05,
      0xd9d4d039, 0xe6db99e5, 0x1fa27cf8, 0xc4ac5665,
      0xf4292244, 0x432aff97, 0xab9423a7, 0xfc93a039,
      0x655b59c3, 0x8f0ccc92, 0xffeff47d, 0x85845dd1,
      0x6fa87e4f, 0xfe2ce6e0, 0xa3014314, 0x4e0811a1,
      0xf7537e82, 0xbd3af235, 0x2ad7d2bb, 0xeb86d391]"

definition md5_pad :: "8 word list \<Rightarrow> 8 word list" where
  "md5_pad bs =
     bs @ [0x80] @ replicate ((119 - length bs mod 64) mod 64) 0
        @ map (\<lambda>i. ucast (drop_bit (8 * i) (word_of_nat (8 * length bs) :: 64 word))) [0..<8]"

fun le32 :: "8 word list \<Rightarrow> 32 word" where
  "le32 [] = 0"
| "le32 (b # bs) = ucast b OR push_bit 8 (le32 bs)"

fun words_of :: "nat \<Rightarrow> 8 word list \<Rightarrow> 32 word list" where
  "words_of 0 bs = []"
| "words_of (Suc n) bs = le32 (take 4 bs) # words_of n (drop 4 bs)"

type_synonym md5_state = "32 word \<times> 32 word \<times> 32 word \<times> 32 word"

definition md5_step :: "32 word list \<Rightarrow> md5_state \<Rightarrow> nat \<Rightarrow> md5_state" where
  "md5_step m st i =
     (case st of (a, b, c, d) \<Rightarrow>
        let f = (if i < 16 then (b AND c) OR (NOT b AND d)
                 else if i < 32 then (d AND b) OR (NOT d AND c)
                 else if i < 48 then b XOR c XOR d
                 else c XOR (b OR NOT d));
            g = (if i < 16 then i
                 else if i < 32 then (5 * i + 1) mod 16
                 else if i < 48 then (3 * i + 5) mod 16
                 else (7 * i) mod 16);
            f' = f + a + md5_consts ! i + m ! g
        in (d, b + word_rotl (md5_shifts ! i) f', b, c))"

definition md5_block :: "md5_state \<Rightarrow> 8 word list \<Rightarrow> md5_state" where
  "md5_block st block =
     (case st of (a0, b0, c0, d0) \<Rightarrow>
        case foldl (md5_step (words_of 16 block)) st [0..<64] of
          (a, b, c, d) \<Rightarrow> (a0 + a, b0 + b, c0 + c, d0 + d))"

fun md5_blocks :: "nat \<Rightarrow> md5_state \<Rightarrow> 8 word list \<Rightarrow> md5_state" where
  "md5_blocks 0 st bs = st"
| "md5_blocks (Suc n) st bs = md5_blocks n (md5_block st (take 64 bs)) (drop 64 bs)"

definition hex_digit :: "nat \<Rightarrow> char" where
  "hex_digit n = (if n < 10 then char_of (48 + n) else char_of (87 + n))"

definition hex_byte :: "8 word \<Rightarrow> string" where
  "hex_byte b = [hex_digit (unat b div 16), hex_digit (unat b mod 16)]"

definition bytes_le32 :: "32 word \<Rightarrow> 8 word list" where
  "bytes_le32 w = map (\<lambda>i. ucast (drop_bit (8 * i) w)) [0..<4]"

definition md5_hexdigest :: "8 word list \<Rightarrow> string" where
  "md5_hexdigest bs =
     (let padded = md5_pad bs in
      case md5_blocks (length padded div 64)
             (0x67452301, 0xefcdab89, 0x98badcfe, 0x10325476) padded of
        (a, b, c, d) \<Rightarrow> concat (map hex_byte (concat (map bytes_le32 [a, b, c, d]))))"

text \<open>The characters from \<open>0\<close> to \<open>f\<close>; the hexadecimal digits are among them.\<close>

definition hex_char :: "char \<Rightarrow> bool" where
  "hex_char c = (48 \<le> (of_char c :: nat) \<and> (of_char c :: nat) \<le> 102)"

text \<open>
  \<^verbatim>\<open>str.encode()\<close>, UTF-8: one byte for a code point below 128, two bytes for the
  others.
\<close>

definition utf8 :: "char \<Rightarrow> 8 word list" where
  "utf8 c =
     (let n = (of_char c :: nat)
      in if n < 128 then [word_of_nat n]
         else [word_of_nat (192 + n div 64), word_of_nat (128 + n mod 64)])"

definition encode :: "string \<Rightarrow> 8 word list" where
  "encode s = concat (map utf8 s)"

definition CACHE_DIR :: string where
  "CACHE_DIR = ''cache/tts''"

text \<open>
  \<^verbatim>\<open>content_hash = hashlib.md5(f"{text}_{voice}".encode()).hexdigest()\<close>,
  \<^verbatim>\<open>return CACHE_DIR / f"{content_hash}.mp3"\<close>
\<close>

definition get_tts_cache_path :: "string \<Rightarrow> string \<Rightarrow> string" where
  "get_tts_cache_path text voice =
     (let content_hash = md5_hexdigest (encode (text @ ''_'' @ voice))
      in CACHE_DIR @ ''/'' @ content_hash @ ''.mp3'')"

subsection \<open>Recipes and ingredients (\<^verbatim>\<open>app/models/dish.py\<close>, \<^verbatim>\<open>app/models/ingredient.py\<close>)\<close>

record recipe =
  r_id :: int
  cook_time :: int
  cook_method :: string
  servings :: int
  photo_url :: "string option"
  is_favorite :: bool
  dish_id :: int

datatype ingredient_type = Meat | Fish | Vegetable | Fruit | Dairy | Other


record recipe_ingredient =
  ri_id :: int
  ri_recipe_id :: int
  ri_ingredient_id :: int
  ri_amount :: rat
  ri_unit :: string

text \<open>\<^verbatim>\<open>Ingredient.validate_name\<close>, run when the constructor sets \<open>name\<close>.\<close>

definition ingredient_validate_name :: "string \<Rightarrow> py_exception + string" where
  "ingredient_validate_name name =
     (if name = [] \<or> strip name = [] then Inl ValueError
      else if length name > 100 then Inl ValueError
      else Inr (strip name))"

subsection \<open>Suggestions (\<^verbatim>\<open>app/routers/suggestions.py\<close>)\<close>












subsection \<open>Deleting a recipe (\<^verbatim>\<open>app/routers/recipes.py\<close>, \<^verbatim>\<open>app/routers/media.py\<close>)\<close>

text \<open>
  What a handler of recipes reads and writes: the tables of recipes and of ingredient
  links, the names of the files in the TTS cache directory, and the paths handed to
  \<^verbatim>\<open>background_tasks.add_task(cleanup_old_photo, path)\<close>, in order.
\<close>

record kitchen =
  k_recipes :: "recipe list"
  k_links :: "recipe_ingredient list"
  k_cache_files :: "string list"
  k_background_tasks :: "string list"

text \<open>\<^verbatim>\<open>Path.stem\<close> of a file name, and the test of \<^verbatim>\<open>glob("*.mp3")\<close>.\<close>

definition is_mp3 :: "string \<Rightarrow> bool" where
  "is_mp3 f = (4 \<le> length f \<and> drop (length f - 4) f = ''.mp3'')"

definition stem :: "string \<Rightarrow> string" where
  "stem f = (if CHR ''.'' \<in> set (tl f)
             then rev (tl (dropWhile (\<lambda>c. c \<noteq> CHR ''.'') (rev f))) else f)"

text \<open>
  \<^verbatim>\<open>delete_tts_cache_for_recipe\<close>: the files that stay and the number of files removed.
\<close>

definition delete_tts_cache_for_recipe :: "int \<Rightarrow> string list \<Rightarrow> string list \<times> nat" where
  "delete_tts_cache_for_recipe recipe_id files =
     (let pattern = ''recipe_'' @ str_of_int recipe_id @ ''_step_'';
          hit = (\<lambda>f. is_mp3 f \<and> contains (stem f) pattern)
      in (filter (\<lambda>f. \<not> hit f) files, length (filter hit files)))"

text \<open>
  \<open>photo_url\<close> is a string column, and a Python \<^verbatim>\<open>str\<close> has no attribute
  \<^verbatim>\<open>scalar\<close>: evaluating \<^verbatim>\<open>recipe.photo_url.scalar()\<close> raises
  \<^verbatim>\<open>AttributeError\<close>.
\<close>

definition str_scalar :: "string \<Rightarrow> py_exception + string" where
  "str_scalar s = Inl AttributeError"

text \<open>
  The query of the three handlers:
  \<^verbatim>\<open>db.query(Recipe).join(Recipe.dish).filter(Recipe.id == recipe_id,
      Dish.user_id == int(user.id)).first()\<close>
\<close>

definition owned_recipe :: "dish list \<Rightarrow> recipe list \<Rightarrow> int \<Rightarrow> user \<Rightarrow> recipe option" where
  "owned_recipe dishes recipes recipe_id u =
     find (\<lambda>r. r_id r = recipe_id
               \<and> list_ex (\<lambda>d. d_id d = dish_id r \<and> d_user_id d = u_id u) dishes) recipes"

datatype message = RecipeDeleted | PhotoDeleted

text \<open>
  \<^verbatim>\<open>if recipe.photo_url and recipe.photo_url.scalar():
      path = recipe.photo_url.scalar().lstrip("/")\<close>:
  the paths to schedule, or the exception raised on the way. \<^verbatim>\<open>None\<close> and the empty
  string are false, so \<^verbatim>\<open>and\<close> does not evaluate its right-hand side for them.
\<close>

definition photo_to_schedule :: "recipe \<Rightarrow> py_exception + string list" where
  "photo_to_schedule r =
     (case photo_url r of
        None \<Rightarrow> Inr []
      | Some p \<Rightarrow>
          if p = [] then Inr []
          else (case str_scalar p of
                  Inl exn \<Rightarrow> Inl exn
                | Inr v \<Rightarrow>
                    if v = [] then Inr []
                    else (case str_scalar p of
                            Inl exn \<Rightarrow> Inl exn
                          | Inr v' \<Rightarrow> Inr [lstrip_slash v'])))"

text \<open>
  \<^verbatim>\<open>delete_recipe\<close>. An exception that is not an \<^verbatim>\<open>HTTPException\<close> is caught by
  \<^verbatim>\<open>except Exception\<close> and becomes the 500 of the handler. Deleting the row deletes
  its ingredient links with it (\<^verbatim>\<open>ondelete="CASCADE"\<close>).
\<close>

definition delete_recipe ::
  "dish list \<Rightarrow> kitchen \<Rightarrow> int \<Rightarrow> user \<Rightarrow> (http_exception + message) \<times> kitchen" where
  "delete_recipe dishes k recipe_id u =
     (case owned_recipe dishes (k_recipes k) recipe_id u of
        None \<Rightarrow> (Inl (HTTPException 404 RecipeNotFound []), k)
      | Some r \<Rightarrow>
          (case photo_to_schedule r of
             Inl exn \<Rightarrow> (Inl (HTTPException 500 ErrorDeletingRecipe []), k)
           | Inr paths \<Rightarrow>
               (Inr RecipeDeleted,
                k\<lparr>k_background_tasks := k_background_tasks k @ paths,
                  k_cache_files := fst (delete_tts_cache_for_recipe recipe_id (k_cache_files k)),
                  k_recipes := filter (\<lambda>x. r_id x \<noteq> r_id r) (k_recipes k),
                  k_links := filter (\<lambda>l. ri_recipe_id l \<noteq> r_id r) (k_links k)\<rparr>)))"

text \<open>
  \<^verbatim>\<open>delete_photo\<close> of \<^verbatim>\<open>app/routers/media.py\<close>, which reads the same column with
  \<^verbatim>\<open>recipe.photo_url.lstrip("/")\<close>.
\<close>

definition delete_photo ::
  "dish list \<Rightarrow> kitchen \<Rightarrow> int \<Rightarrow> user \<Rightarrow> (http_exception + message) \<times> kitchen" where
  "delete_photo dishes k recipe_id u =
     (case owned_recipe dishes (k_recipes k) recipe_id u of
        None \<Rightarrow> (Inl (HTTPException 404 RecipeNotFound []), k)
      | Some r \<Rightarrow>
          (case photo_url r of
             None \<Rightarrow> (Inr PhotoDeleted, k)
           | Some p \<Rightarrow>
               if p = [] then (Inr PhotoDeleted, k)
               else (Inr PhotoDeleted,
                     k\<lparr>k_background_tasks := k_background_tasks k @ [lstrip_slash p],
                       k_recipes := map (\<lambda>x. if r_id x = r_id r then x\<lparr>photo_url := None\<rparr> else x)
                                      (k_recipes k)\<rparr>)))"

subsection \<open>The registration body (\<^verbatim>\<open>app/schemas/user.py\<close>)\<close>

text \<open>The JSON body of \<^verbatim>\<open>POST /auth/register\<close> before validation.\<close>

record register_body =
  rb_email :: string
  rb_password :: string
  rb_first_name :: "string option"
  rb_last_name :: "string option"
  rb_language :: "string option"

text \<open>The function \<^verbatim>\<open>UserCreate.validate_password\<close> as it is written.\<close>

definition validate_password :: "string \<Rightarrow> py_exception + string" where
  "validate_password v =
     (if \<not> list_ex isdigit v then Inl ValueError
      else if \<not> list_ex isalpha v then Inl ValueError
      else Inr v)"

text \<open>
  What a name of the class body is bound to once its decorators have run. Pydantic's
  \<^verbatim>\<open>field_validator(field)\<close> wraps a function in its descriptor proxy, which records
  the field; the built-in \<^verbatim>\<open>classmethod\<close> wraps whatever it is given in a
  \<^verbatim>\<open>classmethod\<close> object.
\<close>

datatype class_attribute =
    Function "string \<Rightarrow> py_exception + string"
  | DescriptorProxy string "string \<Rightarrow> py_exception + string"
  | ClassMethod class_attribute

fun field_validator :: "string \<Rightarrow> class_attribute \<Rightarrow> class_attribute" where
  "field_validator field (Function f) = DescriptorProxy field f"
| "field_validator field (ClassMethod (Function f)) = DescriptorProxy field f"
| "field_validator field a = a"

definition classmethod :: "class_attribute \<Rightarrow> class_attribute" where
  "classmethod a = ClassMethod a"

text \<open>
  The decorators of the source, applied from the one next to \<^verbatim>\<open>def\<close> outwards:
  \<^verbatim>\<open>@classmethod\<close> above \<^verbatim>\<open>@field_validator('password')\<close> above
  \<^verbatim>\<open>def validate_password(cls, v)\<close>.
\<close>

definition UserCreate_namespace :: "(string \<times> class_attribute) list" where
  "UserCreate_namespace =
     [(''validate_password'',
        classmethod (field_validator ''password'' (Function validate_password)))]"

text \<open>
  Pydantic builds the validators of a model class from the values of the class namespace
  that are instances of its descriptor proxy (\<^verbatim>\<open>DecoratorInfos.build\<close>); a value of
  any other type, a \<^verbatim>\<open>classmethod\<close> object included, is not looked into.
\<close>

fun field_validators ::
  "string \<Rightarrow> (string \<times> class_attribute) list \<Rightarrow> (string \<Rightarrow> py_exception + string) list" where
  "field_validators field [] = []"
| "field_validators field ((name, DescriptorProxy fld f) # rest) =
     (if fld = field then f # field_validators field rest else field_validators field rest)"
| "field_validators field ((name, a) # rest) = field_validators field rest"

fun run_validators :: "(string \<Rightarrow> py_exception + string) list \<Rightarrow> string \<Rightarrow> py_exception + string" where
  "run_validators [] v = Inr v"
| "run_validators (f # fs) v = (case f v of Inl exn \<Rightarrow> Inl exn | Inr v' \<Rightarrow> run_validators fs v')"

text \<open>
  Validation of the body against \<^verbatim>\<open>UserCreate\<close>: the declared constraints of the
  fields, then the validators registered for \<open>password\<close>. \<open>email_str\<close> stands for the
  \<^verbatim>\<open>EmailStr\<close> type of the library (the normalised address, or \<open>None\<close>). \<open>None\<close> is
  a validation failure.
\<close>

definition UserCreate_validate ::
  "(string \<Rightarrow> string option) \<Rightarrow> register_body \<Rightarrow> user_create option" where
  "UserCreate_validate email_str body =
     (case email_str (rb_email body) of
        None \<Rightarrow> None
      | Some e \<Rightarrow>
          if length (rb_password body) < 8 \<or> 128 < length (rb_password body) then None
          else if (case rb_first_name body of None \<Rightarrow> False | Some n \<Rightarrow> 100 < length n) then None
          else if (case rb_last_name body of None \<Rightarrow> False | Some n \<Rightarrow> 100 < length n) then None
          else (case run_validators (field_validators ''password'' UserCreate_namespace)
                      (rb_password body) of
                  Inl exn \<Rightarrow> None
                | Inr p \<Rightarrow>
                    Some \<lparr>uc_email = e, uc_password = p, uc_first_name = rb_first_name body,
                          uc_last_name = rb_last_name body,
                          uc_language = (case rb_language body of None \<Rightarrow> ''ru'' | Some l \<Rightarrow> l)\<rparr>))"

text \<open>
  The endpoint: a body that does not validate is answered with 422 before the handler
  runs; a validated body goes to \<open>register\<close>.
\<close>

definition register_endpoint ::
  "(string \<Rightarrow> string option) \<Rightarrow> (string \<Rightarrow> string option) \<Rightarrow> int \<Rightarrow> user list \<Rightarrow> register_body
     \<Rightarrow> (http_exception + user \<times> (string \<times> string) list) \<times> user list" where
  "register_endpoint email_str pwd_hash now users body =
     (case UserCreate_validate email_str body of
        None \<Rightarrow> (Inl (HTTPException 422 RequestValidationError []), users)
      | Some user_data \<Rightarrow> register pwd_hash now users user_data)"

section \<open>Example states\<close>

definition streak_example :: "cooking_session list" where
  "streak_example =
     [\<lparr>cs_id = 1, cs_user_id = 7, cs_recipe_id = 3, cs_is_completed = True,
       cs_current_step = 4, cs_total_steps = 4, cs_started_at = 10 * 86400 + 3600\<rparr>,
      \<lparr>cs_id = 2, cs_user_id = 7, cs_recipe_id = 3, cs_is_completed = True,
       cs_current_step = 4, cs_total_steps = 4, cs_started_at = 9 * 86400 + 100\<rparr>,
      \<lparr>cs_id = 3, cs_user_id = 7, cs_recipe_id = 5, cs_is_completed = False,
       cs_current_step = 1, cs_total_steps = 4, cs_started_at = 8 * 86400 + 100\<rparr>,
      \<lparr>cs_id = 4, cs_user_id = 8, cs_recipe_id = 6, cs_is_completed = True,
       cs_current_step = 2, cs_total_steps = 2, cs_started_at = 8 * 86400 + 7200\<rparr>,
      \<lparr>cs_id = 5, cs_user_id = 8, cs_recipe_id = 6, cs_is_completed = True,
       cs_current_step = 2, cs_total_steps = 2, cs_started_at = 12 * 86400 + 60\<rparr>]"

text \<open>
  Stand-ins for the bcrypt context and the token codec, and two accounts.
\<close>

definition toy_verify :: "string \<Rightarrow> string \<Rightarrow> bool option" where
  "toy_verify p h = Some (h = ''hash:'' @ p)"

definition toy_hash :: "string \<Rightarrow> string option" where
  "toy_hash p = Some (''hash:'' @ p)"

definition toy_encode :: "payload \<Rightarrow> string option" where
  "toy_encode p = (case p ''sub'' of Some (CStr s) \<Rightarrow> Some (''token-for-'' @ s) | _ \<Rightarrow> None)"

definition alice :: user where
  "alice = \<lparr>u_id = 1, email = ''alice@example.com'', hashed_password = ''hash:Secret123'',
            is_premium = False, is_active = True, is_admin = True, is_verified = False,
            permissions = None, first_name = None, last_name = None,
            created_at = 100, last_login = None,
            language = ''ru'', timezone = ''UTC''\<rparr>"

definition bob :: user where
  "bob = \<lparr>u_id = 2, email = ''bob@example.com'', hashed_password = ''hash:Passw0rd'',
            is_premium = False, is_active = True, is_admin = False, is_verified = False,
            permissions = None, first_name = None, last_name = None,
            created_at = 200, last_login = None,
            language = ''ru'', timezone = ''UTC''\<rparr>"

definition dave_create :: user_create where
  "dave_create = \<lparr>uc_email = ''dave@example.com'', uc_password = ''Passw0rd'',
        uc_first_name = Some ''Dave'', uc_last_name = Some ''Doe'', uc_language = ''en''\<rparr>"

definition dave :: user where
  "dave = \<lparr>u_id = 2, email = ''dave@example.com'', hashed_password = ''hash:Passw0rd'',
            is_premium = False, is_active = True, is_admin = False, is_verified = False,
            permissions = None, first_name = None, last_name = None,
            created_at = 700, last_login = None,
            language = ''ru'', timezone = ''UTC''\<rparr>"

text \<open>A third account, a dish body, and \<open>n\<close> dishes of the user \<open>uid\<close>.\<close>

definition carol :: user where
  "carol = \<lparr>u_id = 3, email = ''carol@example.com'', hashed_password = ''hash:Qwerty12'',
            is_premium = False, is_active = True, is_admin = False, is_verified = False,
            permissions = None, first_name = None, last_name = None,
            created_at = 300, last_login = None,
            language = ''ru'', timezone = ''UTC''\<rparr>"

definition borscht :: dish_create where
  "borscht = \<lparr>dc_name = '' Borscht '', dc_category = First\<rparr>"

definition dishes_of :: "int \<Rightarrow> nat \<Rightarrow> dish list" where
  "dishes_of uid n =
     map (\<lambda>i. \<lparr>d_id = 100 * uid + int i, d_name = ''soup'', d_category = First,
               d_user_id = uid, d_created_at = 0\<rparr>) [1..<Suc n]"


definition menu :: "dish list" where
  "menu =
     [\<lparr>d_id = 1, d_name = ''Roast'', d_category = Second, d_user_id = 2, d_created_at = 0\<rparr>,
      \<lparr>d_id = 2, d_name = ''Pilaf'', d_category = Second, d_user_id = 3, d_created_at = 0\<rparr>]"

definition roast :: recipe where
  "roast = \<lparr>r_id = 10, cook_time = 90, cook_method = ''oven'', servings = 4,
            photo_url = Some ''/uploads/photos/10_ab12cd34.jpg'', is_favorite = False,
            dish_id = 1\<rparr>"

definition plain :: recipe where
  "plain = \<lparr>r_id = 11, cook_time = 5, cook_method = ''none'', servings = 1,
            photo_url = None, is_favorite = False, dish_id = 1\<rparr>"

definition pilaf :: recipe where
  "pilaf = \<lparr>r_id = 12, cook_time = 60, cook_method = ''pot'', servings = 6,
            photo_url = None, is_favorite = True, dish_id = 2\<rparr>"

definition grill :: recipe where
  "grill = \<lparr>r_id = 13, cook_time = 30, cook_method = ''grill'', servings = 2,
            photo_url = None, is_favorite = True, dish_id = 1\<rparr>"

definition cookbook :: "recipe list" where
  "cookbook = [roast, plain, pilaf, grill]"

definition cookbook_links :: "recipe_ingredient list" where
  "cookbook_links =
     [\<lparr>ri_id = 1, ri_recipe_id = 10, ri_ingredient_id = 1, ri_amount = 1, ri_unit = ''pc''\<rparr>,
      \<lparr>ri_id = 2, ri_recipe_id = 10, ri_ingredient_id = 2, ri_amount = 1, ri_unit = ''pc''\<rparr>,
      \<lparr>ri_id = 3, ri_recipe_id = 10, ri_ingredient_id = 3, ri_amount = 1, ri_unit = ''pc''\<rparr>,
      \<lparr>ri_id = 4, ri_recipe_id = 12, ri_ingredient_id = 3, ri_amount = 1, ri_unit = ''pc''\<rparr>,
      \<lparr>ri_id = 5, ri_recipe_id = 12, ri_ingredient_id = 4, ri_amount = 1, ri_unit = ''pc''\<rparr>,
      \<lparr>ri_id = 6, ri_recipe_id = 13, ri_ingredient_id = 3, ri_amount = 1, ri_unit = ''pc''\<rparr>]"



text \<open>
  The catalogue with two cached audio files: the one \<open>get_step_audio\<close> stores for step 1
  of the roast, and a file whose name carries the recipe id in clear.
\<close>

definition roast_audio :: string where
  "roast_audio = drop 10 (get_tts_cache_path ''Season the chicken.'' ''recipe_10_step_1'')"

definition pantry_kitchen :: kitchen where
  "pantry_kitchen =
     \<lparr>k_recipes = cookbook, k_links = cookbook_links,
      k_cache_files = [roast_audio, ''recipe_11_step_1.mp3''], k_background_tasks = []\<rparr>"

text \<open>A stand-in for \<^verbatim>\<open>EmailStr\<close>, and a registration whose password has no digit.\<close>

definition toy_email_str :: "string \<Rightarrow> string option" where
  "toy_email_str e = (if email_regex_match e then Some e else None)"

definition erin_body :: register_body where
  "erin_body = \<lparr>rb_email = ''erin@example.com'', rb_password = ''abcdefgh'',
                 rb_first_name = None, rb_last_name = None, rb_language = None\<rparr>"

definition erin :: user where
  "erin = \<lparr>u_id = 2, email = ''erin@example.com'', hashed_password = ''hash:abcdefgh'',
            is_premium = False, is_active = True, is_admin = False, is_verified = False,
            permissions = None, first_name = None, last_name = None,
            created_at = 800, last_login = None,
            language = ''ru'', timezone = ''UTC''\<rparr>"

section \<open>Properties\<close>

subsection \<open>Cooking streak\<close>

lemma streak_loop_upt:
  "streak_loop cnt [k..<n] k = k + length (takeWhile (\<lambda>d. 0 < cnt d) [k..<n])"
proof (induction "n - k" arbitrary: k)
  case 0
  then show ?case by simp
next
  case (Suc m)
  then have lt: "k < n" and step: "m = n - Suc k" by arith+
  have unfold_upt: "[k..<n] = k # [Suc k..<n]"
    using lt by (rule upt_conv_Cons)
  show ?case
  proof (cases "0 < cnt k")
    case True
    have "streak_loop cnt [k..<n] k = streak_loop cnt [Suc k..<n] (Suc k)"
      using True by (simp add: unfold_upt)
    also have "\<dots> = Suc k + length (takeWhile (\<lambda>d. 0 < cnt d) [Suc k..<n])"
      using Suc.hyps(1) [OF step] .
    finally show ?thesis using True by (simp add: unfold_upt)
  next
    case False
    then show ?thesis by (simp add: unfold_upt)
  qed
qed

lemma week_days: "[0..<7] = [0, 1, 2, 3, 4, 5, 6]"
  by (simp add: upt_rec)

lemma sessions_count_positive: "(0 < sessions_count db uid day) = cooked_on db uid day"
  by (auto simp: sessions_count_def cooked_on_def filter_empty_conv)

text \<open>
  C7. The streak is the length of the initial run of days, counted backwards from today
  over at most seven days, on each of which the user has a completed session. Hence
  sessions on today and yesterday but not the day before give 2, and no session today
  gives 0 whatever happened two days ago.
\<close>

theorem cooking_streak_initial_run:
  "cooking_streak_of db uid now =
     length (takeWhile (\<lambda>d. cooked_on db uid (date_of now - int d)) [0..<7])
   \<and> cooking_streak_of db uid now \<le> 7
   \<and> (cooked_on db uid (date_of now) \<and> cooked_on db uid (date_of now - 1)
        \<and> \<not> cooked_on db uid (date_of now - 2) \<longrightarrow> cooking_streak_of db uid now = 2)
   \<and> (\<not> cooked_on db uid (date_of now) \<longrightarrow> cooking_streak_of db uid now = 0)"
proof -
  let ?c = "\<lambda>d. sessions_count db uid (date_of now - int d)"
  have run: "cooking_streak_of db uid now =
      length (takeWhile (\<lambda>d. cooked_on db uid (date_of now - int d)) [0..<7])"
    using streak_loop_upt [of ?c 0 7] by (simp add: cooking_streak_of_def sessions_count_positive)
  have "length (takeWhile (\<lambda>d. cooked_on db uid (date_of now - int d)) [0..<7])
          \<le> length [0..<7]"
    by (rule length_takeWhile_le)
  then have bound: "cooking_streak_of db uid now \<le> 7"
    using run by simp
  show ?thesis
    using bound by (simp add: run week_days)
qed

lemma streak_example_days:
  "cooked_on streak_example 7 10" "cooked_on streak_example 7 9"
  "\<not> cooked_on streak_example 7 8" "\<not> cooked_on streak_example 7 12"
  by (simp_all add: cooked_on_def streak_example_def date_of_def)

theorem cooking_streak_initial_run_witness:
  "cooked_on streak_example 7 (date_of 914000)
   \<and> cooked_on streak_example 7 (date_of 914000 - 1)
   \<and> \<not> cooked_on streak_example 7 (date_of 914000 - 2)
   \<and> cooking_streak_of streak_example 7 914000 = 2
   \<and> \<not> cooked_on streak_example 7 (date_of 1036805)
   \<and> cooking_streak_of streak_example 7 1036805 = 0"
proof -
  have d10: "date_of 914000 = 10" and d12: "date_of 1036805 = 12"
    by (simp_all add: date_of_def)
  have days: "cooked_on streak_example 7 (date_of 914000)"
    "cooked_on streak_example 7 (date_of 914000 - 1)"
    "\<not> cooked_on streak_example 7 (date_of 914000 - 2)"
    "\<not> cooked_on streak_example 7 (date_of 1036805)"
    using streak_example_days by (simp_all add: d10 d12)
  have two: "cooking_streak_of streak_example 7 914000 = 2"
    using cooking_streak_initial_run [of streak_example 7 914000] days by blast
  have none: "cooking_streak_of streak_example 7 1036805 = 0"
    using cooking_streak_initial_run [of streak_example 7 1036805] days by blast
  show ?thesis
    using days two none by blast
qed

subsection \<open>Login, registration and the caller's account\<close>

lemma find_map_commute:
  assumes "\<And>x. P (f x) = P x"
  shows "find P (map f xs) = map_option f (find P xs)"
  using assms by (induction xs) auto

lemma set_flags_fields [simp]:
  "u_id (set_flags g u) = u_id u" "email (set_flags g u) = email u"
  "hashed_password (set_flags g u) = hashed_password u"
  by (simp_all add: set_flags_def)

lemma commit_user_set_flags:
  "commit_user (set_flags g u) (map (set_flags g) users)
     = map (set_flags g) (commit_user u users)"
  by (simp add: commit_user_def set_flags_def)

lemma update_last_login_set_flags:
  "update_last_login now (set_flags g u) = set_flags g (update_last_login now u)"
  by (simp add: update_last_login_def set_flags_def)

text \<open>
  C1. A login whose (lower-cased, trimmed) user name matches no account and a login whose
  user name matches an account but whose password does not verify raise the same
  exception: status 401, the same detail, the same header. Neither changes the table.
\<close>

theorem login_failures_indistinguishable:
  assumes "find (\<lambda>u. email u = strip (lower (fd_username form1))) users1 = None"
    and "find (\<lambda>u. email u = strip (lower (fd_username form2))) users2 = Some u"
    and "verify_password pwd_verify (fd_password form2) (hashed_password u) = Inr False"
  shows "login pwd_verify jwt_encode minutes now1 users1 form1
           = (Inl (HTTPException 401 InvalidEmailOrPassword [(''WWW-Authenticate'', ''Bearer'')]),
              users1)
       \<and> login pwd_verify jwt_encode minutes now2 users2 form2
           = (Inl (HTTPException 401 InvalidEmailOrPassword [(''WWW-Authenticate'', ''Bearer'')]),
              users2)
       \<and> fst (login pwd_verify jwt_encode minutes now1 users1 form1)
           = fst (login pwd_verify jwt_encode minutes now2 users2 form2)"
  using assms by (simp add: login_def bearer_def)

lemma strip_lower_examples:
  "strip (lower ''Carol@Example.com'') = ''carol@example.com''"
  "strip (lower '' Bob@Example.com '') = ''bob@example.com''"
  by code_simp+

theorem login_failures_indistinguishable_witness:
  "login toy_verify toy_encode 1440 500 [alice, bob]
       \<lparr>fd_username = ''Carol@Example.com'', fd_password = ''whatever1''\<rparr>
     = (Inl (HTTPException 401 InvalidEmailOrPassword [(''WWW-Authenticate'', ''Bearer'')]),
        [alice, bob])
   \<and> login toy_verify toy_encode 1440 600 [alice, bob]
       \<lparr>fd_username = '' Bob@Example.com '', fd_password = ''wrongpassword''\<rparr>
     = (Inl (HTTPException 401 InvalidEmailOrPassword [(''WWW-Authenticate'', ''Bearer'')]),
        [alice, bob])"
proof -
  have none: "find (\<lambda>u. email u = strip (lower (fd_username
        \<lparr>fd_username = ''Carol@Example.com'', fd_password = ''whatever1''\<rparr>))) [alice, bob] = None"
    by (simp add: strip_lower_examples alice_def bob_def)
  have some: "find (\<lambda>u. email u = strip (lower (fd_username
        \<lparr>fd_username = '' Bob@Example.com '', fd_password = ''wrongpassword''\<rparr>))) [alice, bob]
        = Some bob"
    by (simp add: strip_lower_examples alice_def bob_def)
  have wrong: "verify_password toy_verify (fd_password
        \<lparr>fd_username = '' Bob@Example.com '', fd_password = ''wrongpassword''\<rparr>)
        (hashed_password bob) = Inr False"
    by (simp add: verify_password_def toy_verify_def bob_def)
  show ?thesis
    using login_failures_indistinguishable [OF none some wrong, of toy_encode 1440 500 600]
    by simp
qed

text \<open>
  C10. Neither \<open>login\<close> nor \<open>get_current_user\<close> reads \<open>is_active\<close>: whatever flags the
  rows carry, both take the same branch, raise the same exception or return the same token
  and the same row; the only difference is the flag itself inside the returned row.
  \<open>get_current_active_user\<close> returns its argument.
\<close>

theorem is_active_not_checked:
  "login pwd_verify jwt_encode minutes now (map (set_flags g) users) form
     = map_prod (map_sum id (\<lambda>r. r\<lparr>tr_user := set_flags g (tr_user r)\<rparr>)) (map (set_flags g))
         (login pwd_verify jwt_encode minutes now users form)
   \<and> get_current_user jwt_decode (map (set_flags g) users) token
     = map_sum id (set_flags g) (get_current_user jwt_decode users token)
   \<and> get_current_active_user (set_flags g u) = set_flags g u"
proof -
  let ?name = "strip (lower (fd_username form))"
  have f1: "find (\<lambda>u. email u = ?name) (map (set_flags g) users)
              = map_option (set_flags g) (find (\<lambda>u. email u = ?name) users)"
    by (rule find_map_commute) simp
  have f2: "\<And>n. find (\<lambda>u. u_id u = n) (map (set_flags g) users)
              = map_option (set_flags g) (find (\<lambda>u. u_id u = n) users)"
    by (rule find_map_commute) simp
  have login_eq: "login pwd_verify jwt_encode minutes now (map (set_flags g) users) form
     = map_prod (map_sum id (\<lambda>r. r\<lparr>tr_user := set_flags g (tr_user r)\<rparr>)) (map (set_flags g))
         (login pwd_verify jwt_encode minutes now users form)"
    unfolding login_def Let_def f1
    by (auto split: option.splits sum.splits
        simp: set_flags_def commit_user_def update_last_login_def)
  have cur_eq: "get_current_user jwt_decode (map (set_flags g) users) token
     = map_sum id (set_flags g) (get_current_user jwt_decode users token)"
    unfolding get_current_user_def Let_def f2
    by (auto split: option.splits sum.splits)
  show ?thesis
    using login_eq cur_eq by (simp add: get_current_active_user_def)
qed

text \<open>
  C9. \<open>register\<close> reads only the email and the password of its body: changing
  \<open>first_name\<close>, \<open>last_name\<close> and \<open>language\<close> changes neither the response nor the
  table, and a created row has no first name, no last name and the language "ru".
\<close>

theorem register_ignores_profile_fields:
  "register pwd_hash now users
       (d\<lparr>uc_first_name := fname, uc_last_name := lname, uc_language := lang\<rparr>)
     = register pwd_hash now users d
   \<and> (register pwd_hash now users d = (Inr (u, hdrs), users')
        \<longrightarrow> first_name u = None \<and> last_name u = None \<and> language u = ''ru''
            \<and> users' = users @ [u])"
  by (auto simp: register_def new_user_def Let_def split: option.splits sum.splits if_splits)

lemma register_dave:
  "register toy_hash 700 [alice] dave_create
     = (Inr (dave, [(''Location'', ''/users/2'')]), [alice, dave])"
  by code_simp

theorem register_ignores_profile_fields_witness:
  "register toy_hash 700 [alice]
       (dave_create\<lparr>uc_first_name := None, uc_last_name := None, uc_language := ''ru''\<rparr>)
     = (Inr (dave, [(''Location'', ''/users/2'')]), [alice, dave])
   \<and> register toy_hash 700 [alice] dave_create
     = (Inr (dave, [(''Location'', ''/users/2'')]), [alice, dave])
   \<and> first_name dave = None \<and> last_name dave = None \<and> language dave = ''ru''"
  using register_ignores_profile_fields [where pwd_hash = toy_hash and now = 700
      and users = "[alice]" and d = dave_create and fname = None and lname = None
      and lang = "''ru''" and u = dave and hdrs = "[(''Location'', ''/users/2'')]"
      and users' = "[alice, dave]"] register_dave
  by simp

subsection \<open>Dish quota\<close>

lemma lstrip_strip: "lstrip (strip s) = strip s"
proof -
  let ?t = "dropWhile py_isspace s"
  let ?u = "dropWhile py_isspace (rev ?t)"
  have strip_eq: "strip s = rev ?u" by (simp add: strip_def rstrip_def lstrip_def)
  show ?thesis
  proof (cases "?u = []")
    case True
    then have "strip s = []" using strip_eq by simp
    then show ?thesis by (simp add: lstrip_def)
  next
    case False
    have tne: "?t \<noteq> []"
    proof
      assume e: "?t = []"
      have "?u = []" unfolding e by simp
      with False show False by contradiction
    qed
    have "\<not> py_isspace (hd ?t)" using tne by (rule hd_dropWhile)
    moreover have "hd (rev ?u) = last ?u" using False by (simp add: hd_rev)
    moreover have "last ?u = last (rev ?t)"
      using False by (metis last_appendR takeWhile_dropWhile_id)
    moreover have "last (rev ?t) = hd ?t" using tne by (simp add: last_rev)
    ultimately have "\<not> py_isspace (hd (rev ?u))" by simp
    then have "dropWhile py_isspace (rev ?u) = rev ?u"
      using False by (cases "rev ?u") auto
    then show ?thesis by (simp add: strip_eq lstrip_def)
  qed
qed

lemma strip_idem: "strip (strip s) = strip s"
proof -
  have "strip (strip s) = rstrip (strip s)" by (simp add: strip_def [of "strip s"] lstrip_strip)
  also have "\<dots> = strip s"
    by (simp add: rstrip_def strip_def [of s])
  finally show ?thesis .
qed

lemma length_strip_le: "length (strip s) \<le> length s"
proof -
  have "length (strip s) \<le> length (lstrip s)"
    by (simp add: strip_def rstrip_def) (metis length_dropWhile_le length_rev)
  also have "\<dots> \<le> length s" by (simp add: lstrip_def length_dropWhile_le)
  finally show ?thesis .
qed

lemma dish_validate_name_strip:
  assumes "strip n \<noteq> []" "length n \<le> 100"
  shows "dish_validate_name (strip n) = Inr (strip n)"
  using assms length_strip_le [of n] by (simp add: dish_validate_name_def strip_idem)

text \<open>
  C2. For a validated body whose name is not blank, \<open>create_dish\<close> succeeds exactly
  while the number of dishes of the caller (the dishes of the table whose \<open>user_id\<close> is
  the caller's id; the dishes of other users do not count) is below the ceiling of the
  caller's tier, 15 without premium and 45 with it, and then adds one dish of the caller
  to the table; from the ceiling on it raises 403 and adds nothing. The tier is read from
  the caller's row at each request, so a premium flag takes effect at once.
\<close>

theorem create_dish_quota:
  assumes "dish_create_valid data" and "strip (dc_name data) \<noteq> []"
  shows "(length (filter (\<lambda>d. d_user_id d = u_id u) dishes) < (if is_premium u then 45 else 15) \<longrightarrow>
        (\<exists>dish. create_dish now dishes u data = (Inr dish, dishes @ [dish])
                \<and> d_user_id dish = u_id u \<and> d_name dish = strip (dc_name data)
                \<and> d_category dish = dc_category data
                \<and> length (filter (\<lambda>d. d_user_id d = u_id u) (dishes @ [dish]))
                    = length (filter (\<lambda>d. d_user_id d = u_id u) dishes) + 1))
    \<and> ((if is_premium u then 45 else 15) \<le> length (filter (\<lambda>d. d_user_id d = u_id u) dishes) \<longrightarrow>
        create_dish now dishes u data
          = (Inl (HTTPException 403 (DishLimitExceeded (if is_premium u then 45 else 15)) []),
             dishes))"
proof -
  have "length (dc_name data) \<le> 100"
    using assms(1) by (simp add: dish_create_valid_def)
  with assms(2) have "dish_validate_name (strip (dc_name data)) = Inr (strip (dc_name data))"
    by (rule dish_validate_name_strip)
  then show ?thesis
    by (simp add: create_dish_def Let_def dish_count_def get_user_limits_def)
qed

lemma borscht_ok:
  "dish_create_valid borscht" "strip (dc_name borscht) \<noteq> []"
  by code_simp+

lemma dishes_of_count:
  "length (filter (\<lambda>d. d_user_id d = k) (dishes_of j n)) = (if j = k then n else 0)"
  by (simp add: dishes_of_def filter_map o_def)

theorem create_dish_quota_witness:
  "dish_create_valid borscht \<and> strip (dc_name borscht) \<noteq> []
   \<and> u_id bob = 2 \<and> u_id carol = 3 \<and> \<not> is_premium bob \<and> \<not> is_premium carol
   \<and> length (dishes_of 2 14 @ dishes_of 3 15) = 29
   \<and> length (filter (\<lambda>d. d_user_id d = u_id bob) (dishes_of 2 14 @ dishes_of 3 15)) = 14
   \<and> (\<exists>dish. create_dish 900 (dishes_of 2 14 @ dishes_of 3 15) bob borscht
                = (Inr dish, dishes_of 2 14 @ dishes_of 3 15 @ [dish])
              \<and> d_user_id dish = 2
              \<and> length (filter (\<lambda>d. d_user_id d = u_id bob)
                          (dishes_of 2 14 @ dishes_of 3 15 @ [dish])) = 15)
   \<and> create_dish 900 (dishes_of 2 14 @ dishes_of 3 15) carol borscht
        = (Inl (HTTPException 403 (DishLimitExceeded 15) []), dishes_of 2 14 @ dishes_of 3 15)
   \<and> length (filter (\<lambda>d. d_user_id d = u_id bob) (dishes_of 2 15 @ dishes_of 3 2)) = 15
   \<and> create_dish 900 (dishes_of 2 15 @ dishes_of 3 2) bob borscht
        = (Inl (HTTPException 403 (DishLimitExceeded 15) []), dishes_of 2 15 @ dishes_of 3 2)
   \<and> (\<exists>dish. create_dish 900 (dishes_of 2 15 @ dishes_of 3 2) carol borscht
                = (Inr dish, dishes_of 2 15 @ dishes_of 3 2 @ [dish]) \<and> d_user_id dish = 3)
   \<and> (\<exists>dish. create_dish 900 (dishes_of 2 15 @ dishes_of 3 2) (bob\<lparr>is_premium := True\<rparr>) borscht
                = (Inr dish, dishes_of 2 15 @ dishes_of 3 2 @ [dish]) \<and> d_user_id dish = 2)"
proof -
  have ids: "u_id bob = 2" "u_id carol = 3" "\<not> is_premium bob" "\<not> is_premium carol"
    by (simp_all add: bob_def carol_def)
  have len: "length (dishes_of 2 14 @ dishes_of 3 15) = 29"
    by (simp add: dishes_of_def)
  have a: "\<exists>dish. create_dish 900 (dishes_of 2 14 @ dishes_of 3 15) bob borscht
                = (Inr dish, dishes_of 2 14 @ dishes_of 3 15 @ [dish])
              \<and> d_user_id dish = 2
              \<and> length (filter (\<lambda>d. d_user_id d = u_id bob)
                          (dishes_of 2 14 @ dishes_of 3 15 @ [dish])) = 15"
    using create_dish_quota [OF borscht_ok, of bob "dishes_of 2 14 @ dishes_of 3 15" 900]
    by (simp add: ids dishes_of_count) blast
  have b: "create_dish 900 (dishes_of 2 14 @ dishes_of 3 15) carol borscht
        = (Inl (HTTPException 403 (DishLimitExceeded 15) []), dishes_of 2 14 @ dishes_of 3 15)"
    using create_dish_quota [OF borscht_ok, of carol "dishes_of 2 14 @ dishes_of 3 15" 900]
    by (simp add: ids dishes_of_count)
  have c: "create_dish 900 (dishes_of 2 15 @ dishes_of 3 2) bob borscht
        = (Inl (HTTPException 403 (DishLimitExceeded 15) []), dishes_of 2 15 @ dishes_of 3 2)"
    using create_dish_quota [OF borscht_ok, of bob "dishes_of 2 15 @ dishes_of 3 2" 900]
    by (simp add: ids dishes_of_count)
  have d: "\<exists>dish. create_dish 900 (dishes_of 2 15 @ dishes_of 3 2) carol borscht
                = (Inr dish, dishes_of 2 15 @ dishes_of 3 2 @ [dish]) \<and> d_user_id dish = 3"
    using create_dish_quota [OF borscht_ok, of carol "dishes_of 2 15 @ dishes_of 3 2" 900]
    by (simp add: ids dishes_of_count) blast
  have e: "\<exists>dish. create_dish 900 (dishes_of 2 15 @ dishes_of 3 2) (bob\<lparr>is_premium := True\<rparr>) borscht
                = (Inr dish, dishes_of 2 15 @ dishes_of 3 2 @ [dish]) \<and> d_user_id dish = 2"
    using create_dish_quota [OF borscht_ok, of "bob\<lparr>is_premium := True\<rparr>"
        "dishes_of 2 15 @ dishes_of 3 2" 900]
    by (simp add: ids dishes_of_count) blast
  show ?thesis
    using borscht_ok ids len a b c d e by (simp add: dishes_of_count)
qed

text \<open>
  C2 as stated fails for a name of white space: the body below passes the validation of
  \<^verbatim>\<open>DishCreate\<close> (two characters), the caller has three dishes, which is below the
  ceiling of 15, and yet no dish is created: \<open>Dish.validate_name\<close> refuses the trimmed
  name and the handler answers 500.
\<close>

theorem create_dish_blank_name_counterexample:
  "dish_create_valid \<lparr>dc_name = ''  '', dc_category = First\<rparr>
   \<and> \<not> is_premium bob
   \<and> length (filter (\<lambda>d. d_user_id d = u_id bob) (dishes_of 2 3)) = 3
   \<and> create_dish 900 (dishes_of 2 3) bob \<lparr>dc_name = ''  '', dc_category = First\<rparr>
       = (Inl (HTTPException 500 ErrorCreatingDish []), dishes_of 2 3)"
proof -
  have blank: "strip ''  '' = []" by code_simp
  have caller: "u_id bob = 2" "\<not> is_premium bob" by (simp_all add: bob_def)
  show ?thesis
    by (simp add: create_dish_def Let_def dish_validate_name_def dish_create_valid_def
          dish_count_def get_user_limits_def dishes_of_count blank caller)
qed

subsection \<open>Self-deactivation by an administrator\<close>

lemma bulk_loop_deactivate:
  "bulk_loop ''deactivate'' admin found n
     = (map (\<lambda>u. if u_id u = u_id admin then u else u\<lparr>is_active := False\<rparr>) found,
        n + length (filter (\<lambda>u. u_id u \<noteq> u_id admin) found))"
  by (induction found arbitrary: n) simp_all

lemma length_found:
  assumes "distinct (map u_id users)" and "distinct ids" and "set ids \<subseteq> u_id ` set users"
  shows "length (filter (\<lambda>u. u_id u \<in> set ids) users) = length ids"
proof -
  let ?found = "filter (\<lambda>u. u_id u \<in> set ids) users"
  have m: "map u_id ?found = filter (\<lambda>i. i \<in> set ids) (map u_id users)"
    by (simp add: filter_map o_def)
  have d: "distinct (map u_id ?found)"
    unfolding m using assms(1) by (rule distinct_filter)
  have seteq: "set (map u_id ?found) = set ids"
    unfolding m using assms(3) by auto
  have "length (map u_id ?found) = card (set (map u_id ?found))"
    using d by (rule distinct_card [symmetric])
  also have "\<dots> = card (set ids)"
    by (simp only: seteq)
  also have "\<dots> = length ids"
    using assms(2) by (rule distinct_card)
  finally show ?thesis by simp
qed

lemma one_row_per_id:
  assumes "distinct (map u_id xs)" and "a \<in> u_id ` set xs"
  shows "length (filter (\<lambda>u. u_id u = a) xs) = 1"
  using assms by (induction xs) (auto simp: image_iff filter_empty_conv)

lemma others_count:
  assumes "distinct (map u_id xs)" and "a \<in> u_id ` set xs"
  shows "length (filter (\<lambda>u. u_id u \<noteq> a) xs) = length xs - 1"
proof -
  have "length (filter (\<lambda>u. u_id u = a) xs) + length (filter (\<lambda>u. \<not> u_id u = a) xs) = length xs"
    by (rule sum_length_filter_compl)
  then show ?thesis using one_row_per_id [OF assms] by simp
qed

lemma find_changed:
  assumes "distinct (map u_id xs)" and "u \<in> set xs" and "\<And>v. u_id (f v) = u_id v"
  shows "find (\<lambda>v. u_id v = u_id u) (map f (filter P xs)) = (if P u then Some (f u) else None)"
  using assms(1,2)
proof (induction xs)
  case Nil
  then show ?case by simp
next
  case (Cons x xs)
  show ?case
  proof (cases "x = u")
    case True
    have "u_id u \<notin> u_id ` set xs" using Cons.prems(1) True by auto
    then have "find (\<lambda>v. u_id v = u_id u) (map f (filter P xs)) = None"
      by (auto simp: find_None_iff assms(3) image_iff)
    then show ?thesis using True by (simp add: assms(3))
  next
    case False
    then have in_xs: "u \<in> set xs" using Cons.prems(2) by simp
    then have "u_id x \<noteq> u_id u" using Cons.prems(1) by auto
    then show ?thesis using Cons.IH in_xs Cons.prems(1) by (simp add: assms(3))
  qed
qed

lemma commit_users_changed:
  assumes "distinct (map u_id users)" and "\<And>v. u_id (f v) = u_id v"
  shows "commit_users (map f (filter P users)) users = map (\<lambda>u. if P u then f u else u) users"
  unfolding commit_users_def
proof (rule map_cong [OF refl])
  fix u assume "u \<in> set users"
  from find_changed [OF assms(1) this assms(2), of P]
  show "(case find (\<lambda>v. u_id v = u_id u) (map f (filter P users)) of Some v \<Rightarrow> v | None \<Rightarrow> u)
          = (if P u then f u else u)"
    by simp
qed

text \<open>
  With one row per user id and a list of ids without repetition, the two handlers behave
  as follows: \<open>toggle_user_active\<close> on the admin's own id raises 400 and changes
  nothing; \<open>bulk_user_action\<close> with the action "deactivate" and ids that are all ids of
  existing users, the admin's own among them, succeeds, deactivates every other listed
  user, leaves the admin's row as it is and reports one less than the number of ids.
\<close>

theorem self_deactivation_toggle_and_bulk:
  assumes row: "find (\<lambda>u. u_id u = u_id admin) users = Some admin"
    and keys: "distinct (map u_id users)"
    and ids: "distinct ids" "set ids \<subseteq> u_id ` set users" "u_id admin \<in> set ids"
  shows "toggle_user_active users (u_id admin) admin
           = (Inl (HTTPException 400 CannotDeactivateSelf []), users)
       \<and> bulk_user_action users \<lparr>ba_user_ids = ids, ba_action = ''deactivate''\<rparr> admin
           = (Inr \<lparr>br_success = True, br_message = (''deactivate'', length ids - 1),
                   br_updated_count = length ids - 1\<rparr>,
              map (\<lambda>u. if u_id u \<in> set ids \<and> u_id u \<noteq> u_id admin
                        then u\<lparr>is_active := False\<rparr> else u) users)"
proof -
  let ?P = "\<lambda>u. u_id u \<in> set ids"
  let ?f = "\<lambda>u. if u_id u = u_id admin then u else u\<lparr>is_active := False\<rparr>"
  let ?found = "filter ?P users"
  have toggle: "toggle_user_active users (u_id admin) admin
           = (Inl (HTTPException 400 CannotDeactivateSelf []), users)"
    using row by (simp add: toggle_user_active_def)
  have len: "length ?found = length ids"
    using keys ids(1,2) by (rule length_found)
  have fkeys: "distinct (map u_id ?found)"
    using keys by (simp add: distinct_map_filter)
  have "u_id admin \<in> u_id ` set ?found"
    using ids(2,3) by auto
  with fkeys have cnt: "length (filter (\<lambda>u. u_id u \<noteq> u_id admin) ?found) = length ids - 1"
    using others_count [of ?found "u_id admin"] len by simp
  have fid: "\<And>v. u_id (?f v) = u_id v" by simp
  have written: "commit_users (map ?f ?found) users = map (\<lambda>u. if ?P u then ?f u else u) users"
    using keys fid by (rule commit_users_changed)
  have same: "map (\<lambda>u. if ?P u then ?f u else u) users
      = map (\<lambda>u. if u_id u \<in> set ids \<and> u_id u \<noteq> u_id admin
                        then u\<lparr>is_active := False\<rparr> else u) users"
    by (rule map_cong) auto
  have bulk: "bulk_user_action users \<lparr>ba_user_ids = ids, ba_action = ''deactivate''\<rparr> admin
           = (Inr \<lparr>br_success = True, br_message = (''deactivate'', length ids - 1),
                   br_updated_count = length ids - 1\<rparr>,
              map (\<lambda>u. if u_id u \<in> set ids \<and> u_id u \<noteq> u_id admin
                        then u\<lparr>is_active := False\<rparr> else u) users)"
    by (simp add: bulk_user_action_def Let_def len bulk_loop_deactivate cnt written same
          del: filter_filter)
  show ?thesis using toggle bulk by simp
qed

theorem self_deactivation_toggle_and_bulk_witness:
  "find (\<lambda>u. u_id u = u_id alice) [alice, bob, carol] = Some alice
   \<and> distinct (map u_id [alice, bob, carol]) \<and> distinct [3, 1 :: int]
   \<and> set [3, 1] \<subseteq> u_id ` set [alice, bob, carol] \<and> u_id alice \<in> set [3, 1]
   \<and> toggle_user_active [alice, bob, carol] 1 alice
       = (Inl (HTTPException 400 CannotDeactivateSelf []), [alice, bob, carol])
   \<and> bulk_user_action [alice, bob, carol] \<lparr>ba_user_ids = [3, 1], ba_action = ''deactivate''\<rparr> alice
       = (Inr \<lparr>br_success = True, br_message = (''deactivate'', 1), br_updated_count = 1\<rparr>,
          [alice, bob, carol\<lparr>is_active := False\<rparr>])"
proof -
  have h1: "find (\<lambda>u. u_id u = u_id alice) [alice, bob, carol] = Some alice"
    by (simp add: alice_def)
  have h2: "distinct (map u_id [alice, bob, carol])"
    by (simp add: alice_def bob_def carol_def)
  have h3: "distinct [3, 1 :: int]" by simp
  have h4: "set [3, 1] \<subseteq> u_id ` set [alice, bob, carol]"
    by (simp add: alice_def bob_def carol_def)
  have h5: "u_id alice \<in> set [3, 1]" by (simp add: alice_def)
  have ids: "u_id alice = 1" "u_id bob = 2" "u_id carol = 3"
    by (simp_all add: alice_def bob_def carol_def)
  show ?thesis
    using self_deactivation_toggle_and_bulk [OF h1 h2 h3 h4 h5] h1 h2 h4 h5
    by (simp add: ids)
qed

text \<open>
  C8. The bulk action does not succeed for every list of ids that all resolve to existing
  users and include the admin's own id. \<open>bulk_user_action\<close> looks for missing users by
  comparing the number of rows found by \<^verbatim>\<open>User.id.in_(user_ids)\<close> with the number of
  ids in the request; a row is found once however often its id is listed. For the ids 1,
  2, 2 sent by the admin 1, with the users 1 and 2 in the table, two rows are found for
  three ids and the request is refused with 400 "some users not found": no user is
  missing, the user 2 is not deactivated, and no count is reported. The dedicated toggle
  refuses the admin's own id with 400, as described.
\<close>

theorem bulk_deactivate_repeated_id_fails:
  "is_admin alice \<and> u_id alice = 1 \<and> u_id bob = 2
   \<and> distinct (map u_id [alice, bob])
   \<and> user_bulk_action_valid \<lparr>ba_user_ids = [1, 2, 2], ba_action = ''deactivate''\<rparr>
   \<and> find (\<lambda>u. u_id u = 1) [alice, bob] = Some alice
   \<and> find (\<lambda>u. u_id u = 2) [alice, bob] = Some bob
   \<and> filter (\<lambda>u. u_id u \<in> set [1, 2, 2]) [alice, bob] = [alice, bob]
   \<and> bulk_user_action [alice, bob] \<lparr>ba_user_ids = [1, 2, 2], ba_action = ''deactivate''\<rparr> alice
       = (Inl (HTTPException 400 SomeUsersNotFound []), [alice, bob])
   \<and> is_active bob
   \<and> toggle_user_active [alice, bob] 1 alice
       = (Inl (HTTPException 400 CannotDeactivateSelf []), [alice, bob])"
  by (simp add: bulk_user_action_def toggle_user_active_def user_bulk_action_valid_def
        alice_def bob_def)

subsection \<open>TTS cache path\<close>

text \<open>The digest of "abc" from the test suite of RFC 1321.\<close>

lemma md5_test_vector:
  "md5_hexdigest (encode ''abc'') = ''900150983cd24fb0d6963f7d28e17f72''"
  by code_simp

lemma length_hex_bytes: "length (concat (map hex_byte bs)) = 2 * length bs"
  by (induction bs) (simp_all add: hex_byte_def)

lemma length_bytes_le32: "length (bytes_le32 w) = 4"
  by (simp add: bytes_le32_def)

lemma length_md5_hexdigest: "length (md5_hexdigest bs) = 32"
proof -
  obtain a b c d where st: "md5_blocks (length (md5_pad bs) div 64)
      (0x67452301, 0xefcdab89, 0x98badcfe, 0x10325476) (md5_pad bs) = (a, b, c, d)"
    by (metis prod_cases4)
  have "md5_hexdigest bs = concat (map hex_byte (concat (map bytes_le32 [a, b, c, d])))"
    by (simp add: md5_hexdigest_def Let_def st)
  moreover have "length (concat (map bytes_le32 [a, b, c, d])) = 16"
    by (simp add: length_bytes_le32)
  ultimately show ?thesis
    by (simp only: length_hex_bytes)
qed




subsection \<open>Suggestions by ingredients\<close>





lemma ingredient_validate_name_trimmed:
  "ingredient_validate_name n = Inr n' \<Longrightarrow> strip n' = n'"
  by (auto simp: ingredient_validate_name_def strip_idem split: if_splits)




subsection \<open>Deleting a recipe\<close>

lemma delete_recipe_not_owned:
  "owned_recipe dishes (k_recipes k) recipe_id u = None
     \<Longrightarrow> delete_recipe dishes k recipe_id u = (Inl (HTTPException 404 RecipeNotFound []), k)"
  by (simp add: delete_recipe_def)

lemma delete_recipe_without_photo:
  assumes "owned_recipe dishes (k_recipes k) recipe_id u = Some r"
    and "photo_url r = None \<or> photo_url r = Some []"
  shows "delete_recipe dishes k recipe_id u
           = (Inr RecipeDeleted,
              k\<lparr>k_cache_files := fst (delete_tts_cache_for_recipe recipe_id (k_cache_files k)),
                k_recipes := filter (\<lambda>x. r_id x \<noteq> r_id r) (k_recipes k),
                k_links := filter (\<lambda>l. ri_recipe_id l \<noteq> r_id r) (k_links k)\<rparr>)"
  using assms by (auto simp: delete_recipe_def photo_to_schedule_def)

lemma delete_recipe_with_photo:
  assumes "owned_recipe dishes (k_recipes k) recipe_id u = Some r"
    and "photo_url r = Some p" and "p \<noteq> []"
  shows "delete_recipe dishes k recipe_id u
           = (Inl (HTTPException 500 ErrorDeletingRecipe []), k)"
  using assms by (simp add: delete_recipe_def photo_to_schedule_def str_scalar_def)

text \<open>
  C5 fails on the code for every recipe that has a photo. The roast belongs to the caller
  and has a photo: \<open>delete_recipe\<close> raises 500 and leaves the recipe, its links, the
  cache and the task list as they were, where the claim has it succeed and schedule the
  photo. \<open>delete_photo\<close>, which reads the same column without \<^verbatim>\<open>.scalar()\<close>, schedules
  the file.
\<close>

theorem delete_recipe_with_photo_fails:
  "owned_recipe menu (k_recipes pantry_kitchen) 10 bob = Some roast
   \<and> photo_url roast = Some ''/uploads/photos/10_ab12cd34.jpg''
   \<and> delete_recipe menu pantry_kitchen 10 bob
       = (Inl (HTTPException 500 ErrorDeletingRecipe []), pantry_kitchen)
   \<and> fst (delete_photo menu pantry_kitchen 10 bob) = Inr PhotoDeleted
   \<and> k_background_tasks (snd (delete_photo menu pantry_kitchen 10 bob))
       = [''uploads/photos/10_ab12cd34.jpg'']"
  by (simp add: delete_recipe_def delete_photo_def owned_recipe_def pantry_kitchen_def
      cookbook_def roast_def menu_def bob_def photo_to_schedule_def str_scalar_def
      lstrip_slash_def)

subsection \<open>The password validator of registration\<close>

lemma validate_password_rejects:
  "\<not> list_ex isdigit v \<or> \<not> list_ex isalpha v \<Longrightarrow> validate_password v = Inl ValueError"
  by (auto simp: validate_password_def)

lemma UserCreate_has_no_password_validator:
  "field_validators ''password'' UserCreate_namespace = []"
  by (simp add: UserCreate_namespace_def classmethod_def)

text \<open>
  C4 fails on the code. The password below has 8 characters and no digit, and
  \<open>validate_password\<close> itself rejects it; but the class attribute is a
  \<^verbatim>\<open>classmethod\<close> object around the validator's proxy, so no validator is registered
  for \<open>password\<close>, the body validates and the account is created.
\<close>

theorem registration_accepts_password_without_digit:
  "8 \<le> length (rb_password erin_body) \<and> length (rb_password erin_body) \<le> 128
   \<and> \<not> list_ex isdigit (rb_password erin_body)
   \<and> validate_password (rb_password erin_body) = Inl ValueError
   \<and> field_validators ''password'' UserCreate_namespace = []
   \<and> register_endpoint toy_email_str toy_hash 800 [alice] erin_body
       = (Inr (erin, [(''Location'', ''/users/2'')]), [alice, erin])"
  by code_simp

subsection \<open>Further properties of the cache purge, of deletion and of the validator\<close>

lemma hex_digit_range: "n < 16 \<Longrightarrow> hex_char (hex_digit n)"
  by (simp add: hex_digit_def hex_char_def)

lemma hex_byte_range: "list_all hex_char (hex_byte b)"
proof -
  have "unat b < 256" using unsigned_less [of b, where 'a = nat] by simp
  then have "unat b div 16 < 16" "unat b mod 16 < 16" by simp_all
  then show ?thesis by (simp add: hex_byte_def hex_digit_range)
qed

lemma hex_bytes_range: "list_all hex_char (concat (map hex_byte bs))"
  by (induction bs) (simp_all add: hex_byte_range)

lemma md5_hexdigest_range: "list_all hex_char (md5_hexdigest bs)"
  by (simp add: md5_hexdigest_def Let_def hex_bytes_range split: prod.splits)

lemma startswith_hd: "startswith s (c # p) \<Longrightarrow> c \<in> set s"
  by (cases s) auto

lemma contains_hd: "contains s (c # p) \<Longrightarrow> c \<in> set s"
  by (induction s) (auto dest: startswith_hd)

lemma stem_hashed:
  assumes "list_all hex_char h" and "h \<noteq> []"
  shows "stem (h @ ''.mp3'') = h" and "is_mp3 (h @ ''.mp3'')"
proof -
  have nodot: "CHR ''.'' \<notin> set h"
    using assms(1) by (auto simp: list_all_iff hex_char_def)
  have "dropWhile (\<lambda>c. c \<noteq> CHR ''.'') (rev (h @ ''.mp3'')) = CHR ''.'' # rev h"
    by simp
  moreover have "CHR ''.'' \<in> set (tl (h @ ''.mp3''))"
    using assms(2) by (cases h) auto
  ultimately show "stem (h @ ''.mp3'') = h"
    by (simp add: stem_def)
  show "is_mp3 (h @ ''.mp3'')" by (simp add: is_mp3_def)
qed

lemma hashed_no_pattern:
  assumes "list_all hex_char h"
  shows "\<not> contains h (''recipe_'' @ str_of_int recipe_id @ ''_step_'')"
proof
  assume "contains h (''recipe_'' @ str_of_int recipe_id @ ''_step_'')"
  then have "CHR ''r'' \<in> set h"
    using contains_hd [of h "CHR ''r''"] by simp
  then show False using assms by (auto simp: list_all_iff hex_char_def)
qed

text \<open>
  The purge of \<open>delete_tts_cache_for_recipe\<close> looks for \<^verbatim>\<open>recipe_{id}_step_\<close> in the
  stem of each cache file. The files that \<open>get_tts_cache_path\<close> names have a stem of
  hexadecimal digits, so the purge removes none of them, for any recipe id.
\<close>

theorem tts_purge_keeps_hashed_files:
  "delete_tts_cache_for_recipe recipe_id
       (map (\<lambda>(text, voice). drop 10 (get_tts_cache_path text voice)) steps)
     = (map (\<lambda>(text, voice). drop 10 (get_tts_cache_path text voice)) steps, 0)"
proof -
  let ?name = "\<lambda>(text, voice). drop 10 (get_tts_cache_path text voice)"
  have miss: "\<not> (is_mp3 (?name s)
              \<and> contains (stem (?name s)) (''recipe_'' @ str_of_int recipe_id @ ''_step_''))" for s
  proof -
    obtain t v where s: "s = (t, v)" by (cases s)
    let ?h = "md5_hexdigest (encode (t @ ''_'' @ v))"
    have name: "?name s = ?h @ ''.mp3''"
      by (simp add: s get_tts_cache_path_def CACHE_DIR_def)
    have "?h \<noteq> []" using length_md5_hexdigest [of "encode (t @ ''_'' @ v)"] by auto
    then have "stem (?name s) = ?h"
      unfolding name using md5_hexdigest_range by (intro stem_hashed(1))
    then show ?thesis
      using hashed_no_pattern [OF md5_hexdigest_range] by simp
  qed
  let ?files = "map ?name steps"
  let ?pat = "''recipe_'' @ str_of_int recipe_id @ ''_step_''"
  have no: "\<forall>f \<in> set ?files. \<not> (is_mp3 f \<and> contains (stem f) ?pat)"
    using miss by auto
  have stay: "filter (\<lambda>f. \<not> (is_mp3 f \<and> contains (stem f) ?pat)) ?files = ?files"
    using no by (intro filter_True)
  have gone: "filter (\<lambda>f. is_mp3 f \<and> contains (stem f) ?pat) ?files = []"
    using no by (intro filter_False)
  show ?thesis
    unfolding delete_tts_cache_for_recipe_def Let_def stay gone by simp
qed

text \<open>
  The three outcomes of \<open>delete_recipe\<close>: 404 and no change for a recipe that is not a
  recipe of the caller; for a recipe of the caller without photo, success, with the row and
  its ingredient links removed and the cache purged; for a recipe of the caller with a
  photo, 500 and no change.
\<close>

theorem delete_recipe_cases:
  "delete_recipe dishes k recipe_id u =
     (case owned_recipe dishes (k_recipes k) recipe_id u of
        None \<Rightarrow> (Inl (HTTPException 404 RecipeNotFound []), k)
      | Some r \<Rightarrow>
          if photo_url r = None \<or> photo_url r = Some []
          then (Inr RecipeDeleted,
                k\<lparr>k_cache_files := fst (delete_tts_cache_for_recipe recipe_id (k_cache_files k)),
                  k_recipes := filter (\<lambda>x. r_id x \<noteq> r_id r) (k_recipes k),
                  k_links := filter (\<lambda>l. ri_recipe_id l \<noteq> r_id r) (k_links k)\<rparr>)
          else (Inl (HTTPException 500 ErrorDeletingRecipe []), k))"
  by (auto simp: delete_recipe_def photo_to_schedule_def str_scalar_def split: option.splits)

text \<open>
  A name of white space only passes the length check of \<open>DishCreate\<close>;
  \<open>create_dish\<close> strips it, \<open>Dish.validate_name\<close> raises on the empty name and
  the handler answers 500, unless the ceiling is reached, which is checked first.
\<close>

theorem create_dish_blank_name:
  "dish_create_valid \<lparr>dc_name = ''  '', dc_category = c\<rparr>
   \<and> create_dish now dishes u \<lparr>dc_name = ''  '', dc_category = c\<rparr>
       = (if max_dishes (get_user_limits (is_premium u)) \<le> dish_count dishes u
          then (Inl (HTTPException 403
                      (DishLimitExceeded (max_dishes (get_user_limits (is_premium u)))) []),
                dishes)
          else (Inl (HTTPException 500 ErrorCreatingDish []), dishes))"
proof -
  have "strip ''  '' = []" by code_simp
  then show ?thesis
    by (simp add: create_dish_def Let_def dish_validate_name_def dish_create_valid_def)
qed

text \<open>
  The function \<open>validate_password\<close>, where it is called, accepts exactly the passwords
  with at least one digit and at least one letter.
\<close>

theorem validate_password_as_written:
  "validate_password v = (if list_ex isdigit v \<and> list_ex isalpha v then Inr v else Inl ValueError)"
  by (simp add: validate_password_def)

end
